theory Spec2Isabelle
  imports Complex_Main
begin

section \<open>Electrical system analyzer: data model\<close>

text \<open>
  Shallow embedding of \<^verbatim>\<open>electrical_system_analyzer.py\<close>. Python floats are
  modelled as real numbers (no rounding, no overflow), except in the section on double
  precision arithmetic near the end of the definitions; every place where the Python
  raises is a branch returning \<open>Inl\<close> of an error value. Where the source file holds
  the two characters backslash and n between two statements of
  \<^verbatim>\<open>validate_system_constraints\<close> (before the \<^verbatim>\<open>margin_min\<close>, \<^verbatim>\<open>vlimit\<close>, \<^verbatim>\<open>plimit\<close> and
  \<^verbatim>\<open>thd_limit\<close> assignments), they are read as the line break they spell.
\<close>

datatype CircuitType = BRANCH | FEEDER | SERVICE | SUBPANEL

datatype LoadType = RESISTIVE | MOTOR | ELECTRONIC | LIGHTING | HVAC | CRITICAL

datatype ProtectionType = BREAKER | FUSE | GFCI | AFCI

text \<open>
  The exceptions the analyzer can raise: the two \<^verbatim>\<open>ValueError\<close>s (the analyzers'
  "Unknown wire size" with the offending label, and the one of \<^verbatim>\<open>list.index\<close> with the
  element that is not in the list), float division by zero, and the \<^verbatim>\<open>AttributeError\<close> of
  the report's timestamp expression.
\<close>

datatype error =
    ValueError_UnknownWireSize string
  | ValueError_NotInList string
  | ZeroDivisionError
  | AttributeError

record WireProperties =
  awg_size :: string
  diameter_mils :: real
  area_cmil :: real
  resistance_ohm_per_kft :: real
  ampacity_60c :: real
  ampacity_75c :: real
  ampacity_90c :: real

record LoadData =
  load_id :: string
  load_type :: LoadType
  nominal_voltage :: real
  nominal_current :: real
  nominal_power :: real
  power_factor :: real
  starting_current_multiplier :: real
  diversity_factor :: real
  critical_load :: bool
  harmonic_content :: "(int \<times> real) list"
  operating_schedule :: "real list"

text \<open>The device's own \<^verbatim>\<open>voltage_rating\<close> is the field \<open>device_voltage_rating\<close> here,
  since the circuit has a field of the same name.\<close>

record ProtectionDevice =
  device_id :: string
  protection_type :: ProtectionType
  current_rating :: real
  device_voltage_rating :: real
  interrupting_rating :: real
  trip_curve_type :: string
  instantaneous_trip_multiplier :: real
  time_delay_characteristics :: "(string \<times> real) list"

record CircuitData =
  circuit_id :: string
  circuit_type :: CircuitType
  wire_awg :: string
  wire_length_ft :: real
  conduit_fill_percentage :: real
  ambient_temperature_c :: real
  number_of_conductors :: int
  voltage_rating :: real
  loads :: "LoadData list"
  protection_device :: ProtectionDevice
  parent_circuit_id :: "string option"

text \<open>A float that may be \<^verbatim>\<open>float('inf')\<close>.\<close>

datatype pyfloat = Finite real | Infinity

record ThermalAnalysisResult =
  conductor_temperature_c :: real
  ampacity_derated :: real
  thermal_margin_percent :: real
  time_to_thermal_limit_minutes :: pyfloat
  cooling_required :: bool

record VoltageDropAnalysis =
  voltage_drop_volts :: real
  voltage_drop_percent :: real
  voltage_at_load :: real
  meets_code_requirements :: bool
  recommended_wire_upgrade :: "string option"

record HarmonicAnalysis =
  thd_voltage_percent :: real
  thd_current_percent :: real
  individual_harmonics :: "(int \<times> real) list"
  k_factor_transformers :: real
  neutral_current_percent :: real

record SystemConstraintCheck =
  constraint_name :: string
  current_value :: real
  limit_value :: real
  margin_percent :: real
  passes_check :: bool
  severity_level :: string
  recommendation :: string

section \<open>StandardWireData\<close>

definition mk_wire :: "string \<Rightarrow> real \<Rightarrow> real \<Rightarrow> real \<Rightarrow> real \<Rightarrow> real \<Rightarrow> real \<Rightarrow> WireProperties" where
  "mk_wire a d c r a60 a75 a90 =
     \<lparr>awg_size = a, diameter_mils = d, area_cmil = c, resistance_ohm_per_kft = r,
      ampacity_60c = a60, ampacity_75c = a75, ampacity_90c = a90\<rparr>"

definition WIRE_DATA :: "(string \<times> WireProperties) list" where
  "WIRE_DATA =
    [(''14'', mk_wire ''14'' 64.1 4107 3.07 15 20 25),
     (''12'', mk_wire ''12'' 80.8 6530 1.93 20 25 30),
     (''10'', mk_wire ''10'' 101.9 10380 1.21 30 35 40),
     (''8'', mk_wire ''8'' 128.5 16510 0.764 40 50 55),
     (''6'', mk_wire ''6'' 162.0 26240 0.491 55 65 75),
     (''4'', mk_wire ''4'' 204.3 41740 0.308 70 85 95),
     (''2'', mk_wire ''2'' 257.6 66360 0.194 95 115 130),
     (''1'', mk_wire ''1'' 289.3 83690 0.154 110 130 150),
     (''1/0'', mk_wire ''1/0'' 325.0 105600 0.122 125 150 170),
     (''2/0'', mk_wire ''2/0'' 365.0 133100 0.0967 145 175 195),
     (''3/0'', mk_wire ''3/0'' 409.6 167800 0.0766 165 200 225),
     (''4/0'', mk_wire ''4/0'' 460.0 211600 0.0608 195 230 260),
     (''250'', mk_wire ''250'' 500.0 250000 0.0515 215 255 290),
     (''300'', mk_wire ''300'' 547.0 300000 0.0429 240 285 320),
     (''350'', mk_wire ''350'' 591.0 350000 0.0367 260 310 350),
     (''400'', mk_wire ''400'' 632.0 400000 0.0321 280 335 380),
     (''500'', mk_wire ''500'' 707.0 500000 0.0258 320 380 430)]"

definition get_wire_properties :: "string \<Rightarrow> WireProperties option" where
  "get_wire_properties awg = map_of WIRE_DATA awg"

definition get_ampacity :: "string \<Rightarrow> int \<Rightarrow> real" where
  "get_ampacity awg temperature_rating =
     (case get_wire_properties awg of
        None \<Rightarrow> 0
      | Some wire \<Rightarrow>
          if temperature_rating \<le> 60 then ampacity_60c wire
          else if temperature_rating \<le> 75 then ampacity_75c wire
          else ampacity_90c wire)"

section \<open>Load aggregation\<close>

record LoadCurrent =
  continuous_current :: real
  non_continuous_current :: real
  design_current :: real
  motor_starting_peak :: real
  harmonic_currents :: "(int \<times> real) list"

text \<open>\<^verbatim>\<open>if k not in d: d[k] = 0.0\<close> followed by \<^verbatim>\<open>d[k] += v\<close>, on a dictionary kept as
  the list of its items in insertion order (a load's \<^verbatim>\<open>harmonic_content\<close> is the list of its
  items in the same way).\<close>

fun dict_accumulate :: "(int \<times> real) list \<Rightarrow> int \<Rightarrow> real \<Rightarrow> (int \<times> real) list" where
  "dict_accumulate [] k v = [(k, 0 + v)]"
| "dict_accumulate ((k', x) # d) k v =
     (if k' = k then (k', x + v) # d else (k', x) # dict_accumulate d k v)"

fun accumulate_harmonics :: "(int \<times> real) list \<Rightarrow> real \<Rightarrow> (int \<times> real) list \<Rightarrow> (int \<times> real) list" where
  "accumulate_harmonics hc base [] = hc"
| "accumulate_harmonics hc base ((harmonic_order, magnitude) # items) =
     accumulate_harmonics (dict_accumulate hc harmonic_order (base * magnitude)) base items"

text \<open>The first part of the loop body: the load's nominal current, scaled by its
  diversity factor when diversity is applied and by the schedule entry of the hour when an
  hour is given and the schedule has that entry.\<close>

definition base_current :: "bool \<Rightarrow> int option \<Rightarrow> LoadData \<Rightarrow> real" where
  "base_current include_diversity time_of_day_hour load =
     (let b0 = nominal_current load;
          b1 = (if include_diversity then b0 * diversity_factor load else b0)
      in case time_of_day_hour of
           None \<Rightarrow> b1
         | Some h \<Rightarrow>
             if operating_schedule load \<noteq> [] then
               (let hour_index = h mod 24
                in if hour_index < int (length (operating_schedule load))
                   then b1 * (operating_schedule load ! nat hour_index)
                   else b1)
             else b1)"

fun load_loop :: "bool \<Rightarrow> int option \<Rightarrow> LoadData list \<Rightarrow> real \<Rightarrow> real \<Rightarrow> real \<Rightarrow> (int \<times> real) list
    \<Rightarrow> real \<times> real \<times> real \<times> (int \<times> real) list" where
  "load_loop incl tod [] total_continuous total_non_continuous total_motor_starting hc =
     (total_continuous, total_non_continuous, total_motor_starting, hc)"
| "load_loop incl tod (load # rest) total_continuous total_non_continuous total_motor_starting hc =
     (let b = base_current incl tod load;
          continuous = (critical_load load \<or> load_type load \<in> set [LIGHTING, ELECTRONIC]);
          tc = (if continuous then total_continuous + b else total_continuous);
          tn = (if continuous then total_non_continuous else total_non_continuous + b);
          tm = (if load_type load = MOTOR
                then max total_motor_starting (b * starting_current_multiplier load)
                else total_motor_starting)
      in load_loop incl tod rest tc tn tm (accumulate_harmonics hc b (harmonic_content load)))"

definition calculate_load_current :: "LoadData list \<Rightarrow> bool \<Rightarrow> int option \<Rightarrow> LoadCurrent" where
  "calculate_load_current lds include_diversity time_of_day_hour =
     (case load_loop include_diversity time_of_day_hour lds 0 0 0 [] of
        (total_continuous, total_non_continuous, total_motor_starting, hc) \<Rightarrow>
          \<lparr>continuous_current = total_continuous,
           non_continuous_current = total_non_continuous,
           design_current = total_continuous * 1.25 + total_non_continuous,
           motor_starting_peak = total_motor_starting,
           harmonic_currents = hc\<rparr>)"

text \<open>The classification and the starting currents in the words of the specification,
  against which the loop is compared.\<close>

definition is_continuous :: "LoadData \<Rightarrow> bool" where
  "is_continuous load = (critical_load load \<or> load_type load = LIGHTING \<or> load_type load = ELECTRONIC)"

definition motor_starting_currents :: "bool \<Rightarrow> int option \<Rightarrow> LoadData list \<Rightarrow> real list" where
  "motor_starting_currents incl tod lds =
     map (\<lambda>l. base_current incl tod l * starting_current_multiplier l)
         (filter (\<lambda>l. load_type l = MOTOR) lds)"


section \<open>Errors as values\<close>

definition bindE :: "error + 'a \<Rightarrow> ('a \<Rightarrow> error + 'b) \<Rightarrow> error + 'b" where
  "bindE m f = (case m of Inl e \<Rightarrow> Inl e | Inr x \<Rightarrow> f x)"

text \<open>Float division: Python raises \<^verbatim>\<open>ZeroDivisionError\<close> on a zero divisor.\<close>

definition pydiv :: "real \<Rightarrow> real \<Rightarrow> error + real" where
  "pydiv a b = (if b = 0 then Inl ZeroDivisionError else Inr (a / b))"

section \<open>Analyzer state and configuration\<close>

text \<open>
  The configuration dictionary. In the constructor's literal the text of the last three
  entries follows the \<^verbatim>\<open>#\<close> of a comment, so the constructor sets no such key; they are read
  with \<^verbatim>\<open>config.get(key, default)\<close> and are optional here.
\<close>

record AnalysisConfig =
  voltage_drop_limit_percent :: real
  temperature_derating_enabled :: bool
  harmonic_analysis_enabled :: bool
  fault_current_safety_margin :: real
  thermal_safety_margin :: real
  parent_loading_limit_percent :: "real option"
  thd_current_limit_percent :: "real option"
  thermal_margin_min_percent :: "real option"

definition config_get :: "real option \<Rightarrow> real \<Rightarrow> real" where
  "config_get v dflt = (case v of None \<Rightarrow> dflt | Some x \<Rightarrow> x)"

definition init_config :: AnalysisConfig where
  "init_config =
     \<lparr>voltage_drop_limit_percent = 3,
      temperature_derating_enabled = True,
      harmonic_analysis_enabled = True,
      fault_current_safety_margin = 0.8,
      thermal_safety_margin = 0.75,
      parent_loading_limit_percent = None,
      thd_current_limit_percent = None,
      thermal_margin_min_percent = None\<rparr>"

record AnalyzerState =
  circuits :: "string \<rightharpoonup> CircuitData"
  system_hierarchy :: "string \<rightharpoonup> string list"
  config :: AnalysisConfig

definition init_state :: AnalyzerState where
  "init_state = \<lparr>circuits = Map.empty, system_hierarchy = Map.empty, config = init_config\<rparr>"

text \<open>\<^verbatim>\<open>if circuit.parent_circuit_id:\<close> is false for \<^verbatim>\<open>None\<close> and for the empty string.\<close>

definition add_circuit :: "AnalyzerState \<Rightarrow> CircuitData \<Rightarrow> AnalyzerState" where
  "add_circuit st circuit =
     (let st1 = st\<lparr>circuits := (circuits st)(circuit_id circuit \<mapsto> circuit)\<rparr>
      in case parent_circuit_id circuit of
           None \<Rightarrow> st1
         | Some p \<Rightarrow>
             if p = [] then st1
             else
               (let children = (case system_hierarchy st1 p of None \<Rightarrow> [] | Some ch \<Rightarrow> ch)
                in st1\<lparr>system_hierarchy :=
                         (system_hierarchy st1)(p \<mapsto> children @ [circuit_id circuit])\<rparr>))"

text \<open>The analyses below are the ones that validation and the report call; the
  fault-current analysis, which neither calls, is not part of this development.\<close>

section \<open>Thermal analysis\<close>

definition temp_factors :: "(int \<times> real) list" where
  "temp_factors =
     [(21, 1.08), (26, 1), (31, 0.91), (36, 0.82), (41, 0.71),
      (46, 0.58), (51, 0.41), (56, 0)]"

text \<open>\<^verbatim>\<open>min(xs, key=f)\<close>: the first element with the least key.\<close>

fun min_by_key :: "('a \<Rightarrow> real) \<Rightarrow> 'a \<Rightarrow> 'a list \<Rightarrow> 'a" where
  "min_by_key f best [] = best"
| "min_by_key f best (x # xs) = min_by_key f (if f x < f best then x else best) xs"

definition get_temperature_correction_factor :: "real \<Rightarrow> real" where
  "get_temperature_correction_factor ambient_temp_c =
     (case map fst temp_factors of
        [] \<Rightarrow> 0
      | k # ks \<Rightarrow>
          (let closest_temp = min_by_key (\<lambda>x. \<bar>real_of_int x - ambient_temp_c\<bar>) k ks
           in case map_of temp_factors closest_temp of None \<Rightarrow> 0 | Some f \<Rightarrow> f))"

definition get_conduit_fill_correction_factor :: "int \<Rightarrow> real \<Rightarrow> real" where
  "get_conduit_fill_correction_factor num_conductors fill_percent =
     (if num_conductors \<le> 3 then 1
      else if num_conductors \<le> 6 then 0.80
      else if num_conductors \<le> 9 then 0.70
      else if num_conductors \<le> 20 then 0.50
      else 0.35)"

definition analyze_thermal_performance :: "AnalysisConfig \<Rightarrow> CircuitData \<Rightarrow> error + ThermalAnalysisResult" where
  "analyze_thermal_performance cfg circuit =
     (case get_wire_properties (wire_awg circuit) of
        None \<Rightarrow> Inl (ValueError_UnknownWireSize (wire_awg circuit))
      | Some wire_props \<Rightarrow>
          (let base_ampacity = get_ampacity (wire_awg circuit) 75;
               temp_correction = get_temperature_correction_factor (ambient_temperature_c circuit);
               fill_correction = get_conduit_fill_correction_factor
                                   (number_of_conductors circuit) (conduit_fill_percentage circuit);
               derated_ampacity = base_ampacity * temp_correction * fill_correction;
               load_analysis = calculate_load_current (loads circuit) True None;
               dc = design_current load_analysis
           in bindE (pydiv dc derated_ampacity) (\<lambda>current_ratio.
                let conductor_temp = ambient_temperature_c circuit
                       + (75 - ambient_temperature_c circuit) * current_ratio ^ 2
                in bindE (pydiv (derated_ampacity - dc) derated_ampacity) (\<lambda>q.
                     let thermal_margin = q * 100
                     in bindE
                          (if dc > derated_ampacity
                           then bindE (pydiv dc derated_ampacity) (\<lambda>overload_ratio.
                                  bindE (pydiv 1 (overload_ratio ^ 2 - 1)) (\<lambda>t.
                                    Inr (Finite (t * 5))))
                           else Inr Infinity)
                          (\<lambda>time_to_limit.
                             Inr \<lparr>conductor_temperature_c = conductor_temp,
                                  ampacity_derated = derated_ampacity,
                                  thermal_margin_percent = thermal_margin,
                                  time_to_thermal_limit_minutes = time_to_limit,
                                  cooling_required =
                                    (dc > derated_ampacity * thermal_safety_margin cfg)\<rparr>)))))"

section \<open>Voltage drop analysis\<close>

definition wire_sizes :: "string list" where
  "wire_sizes = [''14'', ''12'', ''10'', ''8'', ''6'', ''4'', ''2'', ''1'',
                 ''1/0'', ''2/0'', ''3/0'', ''4/0'']"

definition consult_engineer :: string where
  "consult_engineer = ''Consult engineer - may need voltage upgrade''"

text \<open>\<^verbatim>\<open>list.index\<close>: the first position of the element, \<open>None\<close> where Python raises.\<close>

fun index_of :: "'a list \<Rightarrow> 'a \<Rightarrow> nat option" where
  "index_of [] a = None"
| "index_of (x # xs) a = (if x = a then Some 0 else map_option Suc (index_of xs a))"

text \<open>The drop percent recomputed in the loop body for a candidate size.\<close>

definition test_vd_percent :: "CircuitData \<Rightarrow> real \<Rightarrow> WireProperties \<Rightarrow> error + real" where
  "test_vd_percent circuit dc test_wire =
     (let test_resistance = (resistance_ohm_per_kft test_wire / 1000)
                              * wire_length_ft circuit * 2;
          test_vd = dc * test_resistance
      in bindE (pydiv test_vd (voltage_rating circuit)) (\<lambda>q. Inr (q * 100)))"

text \<open>The \<^verbatim>\<open>for i in range(current_index + 1, len(wire_sizes))\<close> loop, over the sizes that
  remain to be tried.\<close>

fun upgrade_search :: "AnalysisConfig \<Rightarrow> CircuitData \<Rightarrow> real \<Rightarrow> string list \<Rightarrow> error + string" where
  "upgrade_search cfg circuit dc [] = Inr consult_engineer"
| "upgrade_search cfg circuit dc (test_size # rest) =
     (case get_wire_properties test_size of
        None \<Rightarrow> upgrade_search cfg circuit dc rest
      | Some test_wire \<Rightarrow>
          bindE (test_vd_percent circuit dc test_wire) (\<lambda>p.
            if p \<le> voltage_drop_limit_percent cfg
            then Inr test_size
            else upgrade_search cfg circuit dc rest))"

definition recommend_wire_upgrade :: "AnalysisConfig \<Rightarrow> CircuitData \<Rightarrow> real \<Rightarrow> real \<Rightarrow> error + string" where
  "recommend_wire_upgrade cfg circuit dc current_vd_percent =
     (case index_of wire_sizes (wire_awg circuit) of
        None \<Rightarrow> Inl (ValueError_NotInList (wire_awg circuit))
      | Some current_index \<Rightarrow>
          upgrade_search cfg circuit dc (drop (current_index + 1) wire_sizes))"

definition analyze_voltage_drop :: "AnalysisConfig \<Rightarrow> CircuitData \<Rightarrow> error + VoltageDropAnalysis" where
  "analyze_voltage_drop cfg circuit =
     (case get_wire_properties (wire_awg circuit) of
        None \<Rightarrow> Inl (ValueError_UnknownWireSize (wire_awg circuit))
      | Some wire_props \<Rightarrow>
          (let load_analysis = calculate_load_current (loads circuit) True None;
               dc = design_current load_analysis;
               resistance_per_ft = resistance_ohm_per_kft wire_props / 1000;
               total_resistance = resistance_per_ft * wire_length_ft circuit * 2;
               voltage_drop = dc * total_resistance
           in bindE (pydiv voltage_drop (voltage_rating circuit)) (\<lambda>q.
                let vd_percent = q * 100;
                    v_at_load = voltage_rating circuit - voltage_drop;
                    meets_code = (vd_percent \<le> voltage_drop_limit_percent cfg)
                in bindE
                     (if \<not> meets_code
                      then bindE (recommend_wire_upgrade cfg circuit dc vd_percent)
                             (\<lambda>s. Inr (Some s))
                      else Inr None)
                     (\<lambda>recommended_upgrade.
                        Inr \<lparr>voltage_drop_volts = voltage_drop,
                             voltage_drop_percent = vd_percent,
                             voltage_at_load = v_at_load,
                             meets_code_requirements = meets_code,
                             recommended_wire_upgrade = recommended_upgrade\<rparr>))))"

section \<open>Harmonic analysis\<close>

fun harmonic_loop :: "LoadData list \<Rightarrow> real \<Rightarrow> (int \<times> real) list \<Rightarrow> real \<times> (int \<times> real) list" where
  "harmonic_loop [] fundamental_current hc = (fundamental_current, hc)"
| "harmonic_loop (load # rest) fundamental_current hc =
     harmonic_loop rest (fundamental_current + nominal_current load)
       (accumulate_harmonics hc (nominal_current load) (harmonic_content load))"

text \<open>The generator summed for the k-factor: each term divides by the fundamental.\<close>

fun k_factor_sum :: "real \<Rightarrow> (int \<times> real) list \<Rightarrow> real \<Rightarrow> error + real" where
  "k_factor_sum fundamental_current [] acc = Inr acc"
| "k_factor_sum fundamental_current ((harmonic_order, current) # items) acc =
     bindE (pydiv current fundamental_current) (\<lambda>q.
       k_factor_sum fundamental_current items (acc + real_of_int (harmonic_order ^ 2) * q ^ 2))"

fun neutral_loop :: "(int \<times> real) list \<Rightarrow> real \<Rightarrow> real" where
  "neutral_loop [] neutral_current = neutral_current"
| "neutral_loop ((harmonic_order, current) # items) neutral_current =
     neutral_loop items
       (if harmonic_order mod 3 = 0 then neutral_current + current else neutral_current)"

definition analyze_harmonic_distortion :: "LoadData list \<Rightarrow> error + HarmonicAnalysis" where
  "analyze_harmonic_distortion circuit_loads =
     (case harmonic_loop circuit_loads 0 [] of
        (fundamental_current, hc) \<Rightarrow>
          (let total_harmonic_power = sum_list (map (\<lambda>(k, current). current ^ 2) hc);
               thd_current = (if fundamental_current > 0
                              then sqrt total_harmonic_power / fundamental_current * 100
                              else 0);
               thd_voltage = thd_current * 0.1
           in bindE (k_factor_sum fundamental_current hc 0) (\<lambda>s.
                let k_factor = 1 + s;
                    neutral_current = neutral_loop hc 0;
                    neutral_percent = (if fundamental_current > 0
                                       then neutral_current / fundamental_current * 100
                                       else 0)
                in Inr \<lparr>thd_voltage_percent = thd_voltage,
                        thd_current_percent = thd_current,
                        individual_harmonics = hc,
                        k_factor_transformers = k_factor,
                        neutral_current_percent = neutral_percent\<rparr>)))"


section \<open>Constraint validation\<close>

text \<open>The four numbered parts of the \<^verbatim>\<open>try\<close> body of \<^verbatim>\<open>validate_system_constraints\<close>,
  each producing its check (the third produces none when the candidate has no parent in the
  registry).\<close>

definition thermal_check :: "AnalysisConfig \<Rightarrow> CircuitData \<Rightarrow> error + SystemConstraintCheck" where
  "thermal_check cfg new_circuit =
     bindE (analyze_thermal_performance cfg new_circuit) (\<lambda>thermal_result.
       let margin_min = config_get (thermal_margin_min_percent cfg) 20;
           tm = thermal_margin_percent thermal_result
       in Inr \<lparr>constraint_name = ''Conductor Ampacity'',
               current_value = ampacity_derated thermal_result,
               limit_value = design_current (calculate_load_current (loads new_circuit) True None),
               margin_percent = tm,
               passes_check = (tm > margin_min),
               severity_level = (if tm < 0 then ''critical''
                                 else if tm < margin_min then ''warning'' else ''info''),
               recommendation = (if tm < margin_min then ''Increase wire size or reduce load''
                                 else ''Adequate thermal margin'')\<rparr>)"

definition voltage_check :: "AnalysisConfig \<Rightarrow> CircuitData \<Rightarrow> error + SystemConstraintCheck" where
  "voltage_check cfg new_circuit =
     bindE (analyze_voltage_drop cfg new_circuit) (\<lambda>voltage_result.
       let vlimit = voltage_drop_limit_percent cfg
       in bindE (pydiv (vlimit - voltage_drop_percent voltage_result) vlimit) (\<lambda>q.
            Inr \<lparr>constraint_name = ''Voltage Drop'',
                 current_value = voltage_drop_percent voltage_result,
                 limit_value = vlimit,
                 margin_percent = q * 100,
                 passes_check = meets_code_requirements voltage_result,
                 severity_level = (if \<not> meets_code_requirements voltage_result
                                   then ''critical'' else ''info''),
                 recommendation =
                   (case recommended_wire_upgrade voltage_result of
                      None \<Rightarrow> ''Voltage drop acceptable''
                    | Some s \<Rightarrow> if s \<noteq> [] then ''Upgrade to '' @ s
                                else ''Voltage drop acceptable'')\<rparr>))"

fun collect_child_loads :: "AnalyzerState \<Rightarrow> string list \<Rightarrow> LoadData list" where
  "collect_child_loads st [] = []"
| "collect_child_loads st (child_id # rest) =
     (case circuits st child_id of None \<Rightarrow> [] | Some child_circuit \<Rightarrow> loads child_circuit)
     @ collect_child_loads st rest"

text \<open>The parent's thermal analysis and the loading check built from it and from the
  aggregate of the children's loads.\<close>

definition parent_loading_check ::
    "AnalysisConfig \<Rightarrow> CircuitData \<Rightarrow> LoadCurrent \<Rightarrow> error + SystemConstraintCheck list" where
  "parent_loading_check cfg parent_circuit parent_load_analysis =
     bindE (analyze_thermal_performance cfg parent_circuit) (\<lambda>parent_thermal.
       bindE (pydiv (design_current parent_load_analysis)
                    (ampacity_derated parent_thermal)) (\<lambda>q.
         let parent_loading_percent = q * 100;
             plimit = config_get (parent_loading_limit_percent cfg) 80
         in Inr [\<lparr>constraint_name = ''Parent Circuit Loading'',
                  current_value = parent_loading_percent,
                  limit_value = plimit,
                  margin_percent = plimit - parent_loading_percent,
                  passes_check = (parent_loading_percent \<le> plimit),
                  severity_level =
                    (if parent_loading_percent > 100 then ''critical''
                     else if parent_loading_percent > plimit then ''warning''
                     else ''info''),
                  recommendation =
                    (if parent_loading_percent > plimit
                     then ''Upgrade parent circuit or redistribute loads''
                     else ''Parent circuit adequate'')\<rparr>]))"

definition parent_check :: "AnalyzerState \<Rightarrow> CircuitData \<Rightarrow> error + SystemConstraintCheck list" where
  "parent_check st new_circuit =
     (case parent_circuit_id new_circuit of
        None \<Rightarrow> Inr []
      | Some p \<Rightarrow>
          if p = [] then Inr []
          else
            (case circuits st p of
               None \<Rightarrow> Inr []
             | Some parent_circuit \<Rightarrow>
                 (let child_circuits = (case system_hierarchy st p of None \<Rightarrow> [] | Some ch \<Rightarrow> ch);
                      all_child_loads = collect_child_loads st child_circuits;
                      parent_load_analysis = calculate_load_current all_child_loads True None
                  in parent_loading_check (config st) parent_circuit parent_load_analysis)))"

definition harmonic_check :: "AnalysisConfig \<Rightarrow> CircuitData \<Rightarrow> error + SystemConstraintCheck" where
  "harmonic_check cfg new_circuit =
     bindE (analyze_harmonic_distortion (loads new_circuit)) (\<lambda>harmonic_result.
       let thd_limit = config_get (thd_current_limit_percent cfg) 20;
           thd = thd_current_percent harmonic_result
       in bindE (pydiv (thd_limit - thd) thd_limit) (\<lambda>q.
            Inr \<lparr>constraint_name = ''Current THD'',
                 current_value = thd,
                 limit_value = thd_limit,
                 margin_percent = q * 100,
                 passes_check = (thd \<le> thd_limit),
                 severity_level = (if thd > thd_limit then ''warning'' else ''info''),
                 recommendation = (if thd > thd_limit then ''Consider harmonic filtering''
                                   else ''Harmonic levels acceptable'')\<rparr>))"

text \<open>The \<^verbatim>\<open>try\<close> body, on the state that holds the grafted candidate.\<close>

definition evaluate_constraints :: "AnalyzerState \<Rightarrow> CircuitData \<Rightarrow> error + SystemConstraintCheck list" where
  "evaluate_constraints st new_circuit =
     bindE (thermal_check (config st) new_circuit) (\<lambda>c1.
       bindE (voltage_check (config st) new_circuit) (\<lambda>c2.
         bindE (parent_check st new_circuit) (\<lambda>c3.
           bindE (harmonic_check (config st) new_circuit) (\<lambda>c4.
             Inr ([c1, c2] @ c3 @ [c4])))))"

text \<open>The \<^verbatim>\<open>finally\<close> block (the same in both methods); \<^verbatim>\<open>list.remove\<close> deletes the
  first occurrence and its \<^verbatim>\<open>ValueError\<close> is caught.\<close>

definition release_circuit :: "AnalyzerState \<Rightarrow> CircuitData \<Rightarrow> AnalyzerState" where
  "release_circuit st new_circuit =
     (if circuits st (circuit_id new_circuit) \<noteq> None then
        (let st1 = st\<lparr>circuits := (circuits st)(circuit_id new_circuit := None)\<rparr>
         in case parent_circuit_id new_circuit of
              None \<Rightarrow> st1
            | Some p \<Rightarrow>
                (case system_hierarchy st1 p of
                   None \<Rightarrow> st1
                 | Some ch \<Rightarrow>
                     st1\<lparr>system_hierarchy :=
                           (system_hierarchy st1)(p \<mapsto> remove1 (circuit_id new_circuit) ch)\<rparr>))
      else st)"

text \<open>The method returns the state it leaves behind and either the raised error or the
  list of checks.\<close>

definition validate_system_constraints ::
    "AnalyzerState \<Rightarrow> CircuitData \<Rightarrow> AnalyzerState \<times> (error + SystemConstraintCheck list)" where
  "validate_system_constraints st new_circuit =
     (let st1 = add_circuit st new_circuit;
          result = evaluate_constraints st1 new_circuit
      in (release_circuit st1 new_circuit, result))"

section \<open>Integration report\<close>

record Modification =
  modification_type :: string
  description :: string
  priority :: string

record SystemImpactSummary =
  affects_parent_circuit :: bool
  critical_issues_count :: nat
  warnings_count :: nat
  estimated_implementation_risk :: string

record IntegrationReport =
  report_circuit_id :: string
  analysis_timestamp :: string
  overall_status :: string
  constraint_checks :: "SystemConstraintCheck list"
  thermal_analysis :: ThermalAnalysisResult
  voltage_analysis :: VoltageDropAnalysis
  harmonic_analysis :: HarmonicAnalysis
  load_analysis :: LoadCurrent
  recommendations :: "string list"
  required_modifications :: "Modification list"
  system_impact_summary :: SystemImpactSummary

definition generate_recommendations :: "SystemConstraintCheck list \<Rightarrow> string list" where
  "generate_recommendations constraints =
     map (\<lambda>c. constraint_name c @ '': '' @ recommendation c)
         (filter (\<lambda>c. \<not> passes_check c) constraints)"

fun starts_with :: "string \<Rightarrow> string \<Rightarrow> bool" where
  "starts_with [] s = True"
| "starts_with (a # as) [] = False"
| "starts_with (a # as) (b # bs) = (a = b \<and> starts_with as bs)"

text \<open>\<^verbatim>\<open>needle in haystack\<close> on strings.\<close>

fun is_substring :: "string \<Rightarrow> string \<Rightarrow> bool" where
  "is_substring needle [] = (needle = [])"
| "is_substring needle (h # t) = (starts_with needle (h # t) \<or> is_substring needle t)"

fun required_modifications_loop :: "SystemConstraintCheck list \<Rightarrow> Modification list" where
  "required_modifications_loop [] = []"
| "required_modifications_loop (c # rest) =
     (if is_substring ''Conductor Ampacity'' (constraint_name c) then
        [\<lparr>modification_type = ''wire_upgrade'',
          description = ''Increase conductor size to handle load'',
          priority = ''high''\<rparr>]
      else if is_substring ''Voltage Drop'' (constraint_name c) then
        [\<lparr>modification_type = ''wire_upgrade_or_voltage_increase'',
          description = ''Reduce circuit resistance or increase supply voltage'',
          priority = ''high''\<rparr>]
      else if is_substring ''Parent Circuit'' (constraint_name c) then
        [\<lparr>modification_type = ''panel_upgrade'',
          description = ''Upgrade parent circuit or redistribute loads'',
          priority = ''high''\<rparr>]
      else [])
     @ required_modifications_loop rest"

definition generate_required_modifications :: "SystemConstraintCheck list \<Rightarrow> Modification list" where
  "generate_required_modifications constraints =
     required_modifications_loop (filter (\<lambda>c. severity_level c = ''critical'') constraints)"

definition assess_implementation_risk :: "SystemConstraintCheck list \<Rightarrow> string" where
  "assess_implementation_risk constraints =
     (let critical_count = length (filter (\<lambda>c. severity_level c = ''critical'') constraints);
          warning_count = length (filter (\<lambda>c. severity_level c = ''warning'') constraints)
      in if critical_count > 2 then ''HIGH''
         else if critical_count > 0 \<or> warning_count > 3 then ''MEDIUM''
         else ''LOW'')"

text \<open>
  The timestamp expression of the report, \<^verbatim>\<open>np.datetime64('now').isoformat()\<close>: a numpy
  \<^verbatim>\<open>datetime64\<close> value has no attribute \<^verbatim>\<open>isoformat\<close>, so evaluating the expression raises
  \<^verbatim>\<open>AttributeError\<close>.
\<close>

definition datetime64_now_isoformat :: "error + string" where
  "datetime64_now_isoformat = Inl AttributeError"

text \<open>
  The \<^verbatim>\<open>try\<close> body of \<^verbatim>\<open>generate_integration_report\<close>, with the outcome of the
  timestamp expression as the parameter \<open>now\<close>; the method as the code has it is the instance
  at \<open>datetime64_now_isoformat\<close>.
\<close>

definition report_body ::
    "AnalysisConfig \<Rightarrow> CircuitData \<Rightarrow> SystemConstraintCheck list \<Rightarrow> error + string
     \<Rightarrow> error + IntegrationReport" where
  "report_body cfg new_circuit constraints now =
     bindE (analyze_thermal_performance cfg new_circuit) (\<lambda>thermal.
       bindE (analyze_voltage_drop cfg new_circuit) (\<lambda>voltage.
         bindE (analyze_harmonic_distortion (loads new_circuit)) (\<lambda>harmonic.
           let la = calculate_load_current (loads new_circuit) True None;
               critical_issues = filter (\<lambda>c. severity_level c = ''critical'') constraints;
               warnings = filter (\<lambda>c. severity_level c = ''warning'') constraints;
               status = (if critical_issues \<noteq> [] then ''FAIL''
                         else if warnings \<noteq> [] then ''PASS_WITH_WARNINGS''
                         else ''PASS'')
           in bindE now (\<lambda>timestamp.
                Inr \<lparr>report_circuit_id = circuit_id new_circuit,
                     analysis_timestamp = timestamp,
                     overall_status = status,
                     constraint_checks = constraints,
                     thermal_analysis = thermal,
                     voltage_analysis = voltage,
                     harmonic_analysis = harmonic,
                     load_analysis = la,
                     recommendations = generate_recommendations constraints,
                     required_modifications = generate_required_modifications constraints,
                     system_impact_summary =
                       \<lparr>affects_parent_circuit = (parent_circuit_id new_circuit \<noteq> None),
                        critical_issues_count = length critical_issues,
                        warnings_count = length warnings,
                        estimated_implementation_risk =
                          assess_implementation_risk constraints\<rparr>\<rparr>))))"

definition generate_integration_report ::
    "AnalyzerState \<Rightarrow> CircuitData \<Rightarrow> error + string
     \<Rightarrow> AnalyzerState \<times> (error + IntegrationReport)" where
  "generate_integration_report st new_circuit now =
     (case validate_system_constraints st new_circuit of
        (st1, Inl e) \<Rightarrow> (st1, Inl e)
      | (st1, Inr constraints) \<Rightarrow>
          (let st2 = add_circuit st1 new_circuit;
               result = report_body (config st2) new_circuit constraints now
           in (release_circuit st2 new_circuit, result)))"


section \<open>Example data\<close>

text \<open>The protection device, load and circuit of the module's usage example, and a few
  variations of them used to evaluate the functions on concrete inputs.\<close>

definition example_protection :: ProtectionDevice where
  "example_protection =
     \<lparr>device_id = ''CB-101'', protection_type = BREAKER, current_rating = 20.0,
      device_voltage_rating = 120.0, interrupting_rating = 10000.0, trip_curve_type = ''C'',
      instantaneous_trip_multiplier = 10.0,
      time_delay_characteristics = [(''thermal'', 60.0), (''magnetic'', 0.5)]\<rparr>"

definition example_load :: LoadData where
  "example_load =
     \<lparr>load_id = ''HVAC-1'', load_type = HVAC, nominal_voltage = 120.0, nominal_current = 15.0,
      nominal_power = 1800.0, power_factor = 0.85, starting_current_multiplier = 3.0,
      diversity_factor = 0.8, critical_load = True,
      harmonic_content = [(3, 0.1), (5, 0.05)],
      operating_schedule = replicate 24 0.5\<rparr>"

definition example_circuit :: CircuitData where
  "example_circuit =
     \<lparr>circuit_id = ''BRANCH-201'', circuit_type = BRANCH, wire_awg = ''12'',
      wire_length_ft = 100.0, conduit_fill_percentage = 40.0, ambient_temperature_c = 30.0,
      number_of_conductors = 3, voltage_rating = 120.0, loads = [example_load],
      protection_device = example_protection, parent_circuit_id = None\<rparr>"

text \<open>A plain resistive load of the given current: no diversity reduction, not critical,
  no harmonics.\<close>

definition resistive_load :: "real \<Rightarrow> LoadData" where
  "resistive_load i =
     example_load\<lparr>load_id := ''R-1'', load_type := RESISTIVE, nominal_current := i,
                  diversity_factor := 1, critical_load := False, harmonic_content := []\<rparr>"

definition motor_load :: "real \<Rightarrow> real \<Rightarrow> LoadData" where
  "motor_load i m =
     example_load\<lparr>load_id := ''M-1'', load_type := MOTOR, nominal_current := i,
                  starting_current_multiplier := m,
                  diversity_factor := 1, critical_load := False, harmonic_content := []\<rparr>"

definition panel_circuit :: CircuitData where
  "panel_circuit =
     example_circuit\<lparr>circuit_id := ''PANEL'', circuit_type := FEEDER, wire_awg := ''14'',
                     loads := []\<rparr>"

definition child_circuit :: CircuitData where
  "child_circuit = example_circuit\<lparr>parent_circuit_id := Some ''PANEL''\<rparr>"

definition unknown_wire_circuit :: CircuitData where
  "unknown_wire_circuit = child_circuit\<lparr>wire_awg := ''13''\<rparr>"

definition hot_circuit :: CircuitData where
  "hot_circuit = example_circuit\<lparr>ambient_temperature_c := 56\<rparr>"

definition idle_harmonic_load :: LoadData where
  "idle_harmonic_load = example_load\<lparr>nominal_current := 0\<rparr>"

definition short_run_circuit :: CircuitData where
  "short_run_circuit = example_circuit\<lparr>wire_length_ft := 90, loads := [resistive_load 10]\<rparr>"

definition long_run_circuit :: CircuitData where
  "long_run_circuit = example_circuit\<lparr>loads := [resistive_load 10]\<rparr>"

text \<open>A state holding a panel feeder and a branch below it, built by \<open>add_circuit\<close>.\<close>

definition panel_state :: AnalyzerState where
  "panel_state = add_circuit (add_circuit init_state panel_circuit) child_circuit"

section \<open>Notions used to state the properties\<close>

text \<open>A circuit identity is listed in the hierarchy index when some parent's list of
  children holds it.\<close>

definition in_hierarchy :: "AnalyzerState \<Rightarrow> string \<Rightarrow> bool" where
  "in_hierarchy st cid = (\<exists>p ch. system_hierarchy st p = Some ch \<and> cid \<in> set ch)"

text \<open>The design current of the loads collected from a list of child identities: the
  numerator of the parent loading.\<close>

definition children_design_current :: "AnalyzerState \<Rightarrow> string list \<Rightarrow> real" where
  "children_design_current st ids =
     design_current (calculate_load_current (collect_child_loads st ids) True None)"

text \<open>The severity policy as the specification words it: critical below a zero margin,
  warning below the configured minimum margin, info otherwise.\<close>

definition uniform_severity :: "real \<Rightarrow> real \<Rightarrow> string" where
  "uniform_severity margin margin_min =
     (if margin < 0 then ''critical'' else if margin < margin_min then ''warning'' else ''info'')"

text \<open>A state holding only the panel feeder, and two branches proposed below it.\<close>

definition panel_only_state :: AnalyzerState where
  "panel_only_state = add_circuit init_state panel_circuit"

definition overload_child :: CircuitData where
  "overload_child =
     example_circuit\<lparr>circuit_id := ''B-1'', wire_length_ft := 10, loads := [resistive_load 19],
                     parent_circuit_id := Some ''PANEL''\<rparr>"

definition heavy_child :: CircuitData where
  "heavy_child =
     example_circuit\<lparr>circuit_id := ''B-2'', wire_length_ft := 10, loads := [resistive_load 16],
                     parent_circuit_id := Some ''PANEL''\<rparr>"

definition feeder_4_0 :: CircuitData where
  "feeder_4_0 =
     example_circuit\<lparr>wire_awg := ''4/0'', wire_length_ft := 3000, loads := [resistive_load 10]\<rparr>"

text \<open>Whether the drop percent recomputed for a size of the wire table meets the
  configured limit.\<close>

definition upgrade_meets_limit :: "AnalysisConfig \<Rightarrow> CircuitData \<Rightarrow> string \<Rightarrow> bool" where
  "upgrade_meets_limit cfg circuit awg =
     (case get_wire_properties awg of
        None \<Rightarrow> False
      | Some w \<Rightarrow>
          (case test_vd_percent circuit
                  (design_current (calculate_load_current (loads circuit) True None)) w of
             Inl e \<Rightarrow> False
           | Inr p \<Rightarrow> p \<le> voltage_drop_limit_percent cfg))"

text \<open>The checks that validation returns for the two branches below the panel and for
  the short run with no parent.\<close>

definition thd_check_no_harmonics :: SystemConstraintCheck where
  "thd_check_no_harmonics =
     \<lparr>constraint_name = ''Current THD'', current_value = 0, limit_value = 20,
      margin_percent = 100, passes_check = True, severity_level = ''info'',
      recommendation = ''Harmonic levels acceptable''\<rparr>"

definition overload_checks :: "SystemConstraintCheck list" where
  "overload_checks =
     [\<lparr>constraint_name = ''Conductor Ampacity'', current_value = 91 / 4,
       limit_value = 19, margin_percent = 1500 / 91, passes_check = False,
       severity_level = ''warning'',
       recommendation = ''Increase wire size or reduce load''\<rparr>,
      \<lparr>constraint_name = ''Voltage Drop'', current_value = 3667 / 6000,
       limit_value = 3, margin_percent = 14333 / 180, passes_check = True,
       severity_level = ''info'', recommendation = ''Voltage drop acceptable''\<rparr>,
      \<lparr>constraint_name = ''Parent Circuit Loading'',
       current_value = 9500 / 91, limit_value = 80,
       margin_percent = - (2220 / 91), passes_check = False,
       severity_level = ''critical'',
       recommendation = ''Upgrade parent circuit or redistribute loads''\<rparr>,
      thd_check_no_harmonics]"

definition heavy_checks :: "SystemConstraintCheck list" where
  "heavy_checks =
     [\<lparr>constraint_name = ''Conductor Ampacity'', current_value = 91 / 4,
       limit_value = 16, margin_percent = 2700 / 91, passes_check = True,
       severity_level = ''info'', recommendation = ''Adequate thermal margin''\<rparr>,
      \<lparr>constraint_name = ''Voltage Drop'', current_value = 193 / 375,
       limit_value = 3, margin_percent = 3728 / 45, passes_check = True,
       severity_level = ''info'', recommendation = ''Voltage drop acceptable''\<rparr>,
      \<lparr>constraint_name = ''Parent Circuit Loading'',
       current_value = 8000 / 91, limit_value = 80,
       margin_percent = - (720 / 91), passes_check = False,
       severity_level = ''warning'',
       recommendation = ''Upgrade parent circuit or redistribute loads''\<rparr>,
      thd_check_no_harmonics]"

definition short_run_checks :: "SystemConstraintCheck list" where
  "short_run_checks =
     [\<lparr>constraint_name = ''Conductor Ampacity'', current_value = 91 / 4,
       limit_value = 10, margin_percent = 5100 / 91, passes_check = True,
       severity_level = ''info'', recommendation = ''Adequate thermal margin''\<rparr>,
      \<lparr>constraint_name = ''Voltage Drop'', current_value = 579 / 200,
       limit_value = 3, margin_percent = 7 / 2, passes_check = True,
       severity_level = ''info'', recommendation = ''Voltage drop acceptable''\<rparr>,
      thd_check_no_harmonics]"

definition panel_thermal_result :: ThermalAnalysisResult where
  "panel_thermal_result =
     \<lparr>conductor_temperature_c = 30, ampacity_derated = 91 / 5,
      thermal_margin_percent = 100, time_to_thermal_limit_minutes = Infinity,
      cooling_required = False\<rparr>"

text \<open>The factor by which a conductor's resistance per 1000 ft is multiplied to give the
  round-trip drop percent of a circuit.\<close>

definition drop_scale :: "CircuitData \<Rightarrow> real" where
  "drop_scale c = design_current (calculate_load_current (loads c) True None)
                    * wire_length_ft c * 2 / 1000 / voltage_rating c * 100"

text \<open>The voltage-drop results expected for the long run and for the 4/0 feeder, and a
  feeder of a size that the wire table has and the upgrade ladder has not.\<close>

definition long_run_voltage :: VoltageDropAnalysis where
  "long_run_voltage =
     \<lparr>voltage_drop_volts = 193 / 50, voltage_drop_percent = 193 / 60,
      voltage_at_load = 5807 / 50, meets_code_requirements = False,
      recommended_wire_upgrade = Some ''10''\<rparr>"

definition feeder_4_0_voltage :: VoltageDropAnalysis where
  "feeder_4_0_voltage =
     \<lparr>voltage_drop_volts = 456 / 125, voltage_drop_percent = 76 / 25,
      voltage_at_load = 14544 / 125, meets_code_requirements = False,
      recommended_wire_upgrade = Some consult_engineer\<rparr>"

definition feeder_250 :: CircuitData where
  "feeder_250 =
     example_circuit\<lparr>wire_awg := ''250'', wire_length_ft := 4000, loads := [resistive_load 10]\<rparr>"

text \<open>The aggregated design current of a parent's children in the words of the
  specification: the sum, over the identities listed under the parent, of the design current
  of the registered circuit of that identity, plus the design current of the candidate.\<close>

definition child_design_current :: "AnalyzerState \<Rightarrow> string \<Rightarrow> real" where
  "child_design_current st cid =
     (case circuits st cid of
        None \<Rightarrow> 0
      | Some ch \<Rightarrow> design_current (calculate_load_current (loads ch) True None))"

definition aggregated_children_design_current :: "AnalyzerState \<Rightarrow> CircuitData \<Rightarrow> string \<Rightarrow> real" where
  "aggregated_children_design_current st c p =
     sum_list (map (child_design_current st)
                 (case system_hierarchy st p of None \<Rightarrow> [] | Some ch \<Rightarrow> ch))
     + design_current (calculate_load_current (loads c) True None)"

text \<open>A panel with one branch of 10 A below it, two further branches proposed below the
  panel, a 20 A branch of 4000 ft in 250 kcmil conductors, and a panel whose only branch is
  validated again.\<close>

definition sibling_child :: CircuitData where
  "sibling_child =
     example_circuit\<lparr>circuit_id := ''B-0'', wire_length_ft := 10, loads := [resistive_load 10],
                     parent_circuit_id := Some ''PANEL''\<rparr>"

definition sibling_state :: AnalyzerState where
  "sibling_state = add_circuit panel_only_state sibling_child"

definition small_child :: CircuitData where
  "small_child =
     example_circuit\<lparr>circuit_id := ''B-4'', wire_length_ft := 10, loads := [resistive_load 6],
                     parent_circuit_id := Some ''PANEL''\<rparr>"

definition kcmil_child :: CircuitData where
  "kcmil_child =
     feeder_250\<lparr>circuit_id := ''B-5'', loads := [resistive_load 20],
                  parent_circuit_id := Some ''PANEL''\<rparr>"

definition heavy_state :: AnalyzerState where
  "heavy_state = add_circuit panel_only_state heavy_child"

definition sibling_overload_checks :: "SystemConstraintCheck list" where
  "sibling_overload_checks =
     overload_checks
       [2 := \<lparr>constraint_name = ''Parent Circuit Loading'',
               current_value = 14500 / 91, limit_value = 80,
               margin_percent = - (7220 / 91), passes_check = False,
               severity_level = ''critical'',
               recommendation = ''Upgrade parent circuit or redistribute loads''\<rparr>]"

definition sibling_small_checks :: "SystemConstraintCheck list" where
  "sibling_small_checks =
     [\<lparr>constraint_name = ''Conductor Ampacity'', current_value = 91 / 4,
       limit_value = 6, margin_percent = 6700 / 91, passes_check = True,
       severity_level = ''info'', recommendation = ''Adequate thermal margin''\<rparr>,
      \<lparr>constraint_name = ''Voltage Drop'', current_value = 193 / 1000,
       limit_value = 3, margin_percent = 2807 / 30, passes_check = True,
       severity_level = ''info'', recommendation = ''Voltage drop acceptable''\<rparr>,
      \<lparr>constraint_name = ''Parent Circuit Loading'',
       current_value = 8000 / 91, limit_value = 80,
       margin_percent = - (720 / 91), passes_check = False,
       severity_level = ''warning'',
       recommendation = ''Upgrade parent circuit or redistribute loads''\<rparr>,
      thd_check_no_harmonics]"

definition relisted_checks :: "SystemConstraintCheck list" where
  "relisted_checks =
     heavy_checks
       [2 := \<lparr>constraint_name = ''Parent Circuit Loading'',
               current_value = 16000 / 91, limit_value = 80,
               margin_percent = - (8720 / 91), passes_check = False,
               severity_level = ''critical'',
               recommendation = ''Upgrade parent circuit or redistribute loads''\<rparr>]"


section \<open>Properties of the wire table\<close>

lemma wire_table_entry:
  assumes "get_wire_properties awg = Some w"
  shows "(awg, w) \<in> set WIRE_DATA"
  using assms unfolding get_wire_properties_def by (rule map_of_SomeD)

lemma wire_table_ampacity_order:
  assumes "(awg, w) \<in> set WIRE_DATA"
  shows "0 < ampacity_60c w \<and> ampacity_60c w \<le> ampacity_75c w \<and> ampacity_75c w \<le> ampacity_90c w"
  using assms unfolding WIRE_DATA_def mk_wire_def by auto

text \<open>
  C9: \<open>get_ampacity\<close> takes the 60 degree column for ratings up to 60, the 75 degree
  column for ratings up to 75 and the 90 degree column above; for every size of the table
  the three values are ordered 60 \<open>\<le>\<close> 75 \<open>\<le>\<close> 90.
\<close>

theorem get_ampacity_tiers_monotone:
  assumes "get_wire_properties awg = Some w"
  shows "get_ampacity awg r =
           (if r \<le> 60 then ampacity_60c w else if r \<le> 75 then ampacity_75c w else ampacity_90c w)
         \<and> get_ampacity awg 60 \<le> get_ampacity awg 75
         \<and> get_ampacity awg 75 \<le> get_ampacity awg 90"
proof -
  have ord: "ampacity_60c w \<le> ampacity_75c w \<and> ampacity_75c w \<le> ampacity_90c w"
    using wire_table_ampacity_order [OF wire_table_entry [OF assms]] by simp
  have sel: "\<And>t. get_ampacity awg t =
           (if t \<le> 60 then ampacity_60c w else if t \<le> 75 then ampacity_75c w else ampacity_90c w)"
    using assms by (simp add: get_ampacity_def)
  show ?thesis using ord by (simp add: sel)
qed

theorem get_ampacity_tiers_monotone_witness:
  "get_wire_properties ''1/0'' = Some (mk_wire ''1/0'' 325.0 105600 0.122 125 150 170)
   \<and> get_ampacity ''1/0'' 61 = 150
   \<and> get_ampacity ''1/0'' 60 \<le> get_ampacity ''1/0'' 75
   \<and> get_ampacity ''1/0'' 75 \<le> get_ampacity ''1/0'' 90"
proof -
  have h: "get_wire_properties ''1/0'' = Some (mk_wire ''1/0'' 325.0 105600 0.122 125 150 170)"
    by (simp add: get_wire_properties_def WIRE_DATA_def)
  show ?thesis
    using h get_ampacity_tiers_monotone [OF h, of 61] by (simp add: mk_wire_def)
qed


section \<open>Totals of the load aggregation\<close>

lemma continuous_test:
  "(critical_load load \<or> load_type load \<in> set [LIGHTING, ELECTRONIC]) = is_continuous load"
  by (simp add: is_continuous_def)

lemma load_loop_totals:
  "load_loop incl tod lds tc tn tm hc = (c, n, m, h) \<Longrightarrow>
     c = tc + sum_list (map (base_current incl tod) (filter is_continuous lds))
   \<and> n = tn + sum_list (map (base_current incl tod) (filter (\<lambda>l. \<not> is_continuous l) lds))
   \<and> m = fold max (motor_starting_currents incl tod lds) tm"
proof (induction lds arbitrary: tc tn tm hc)
  case Nil
  then show ?case by (simp add: motor_starting_currents_def)
next
  case (Cons load rest)
  from Cons.prems show ?case
    by (simp only: load_loop.simps Let_def continuous_test)
       (cases "is_continuous load"; cases "load_type load = MOTOR";
        simp add: motor_starting_currents_def; drule Cons.IH;
        simp add: motor_starting_currents_def max.commute)
qed

lemma calculate_load_current_totals:
  "continuous_current (calculate_load_current lds incl tod) =
      sum_list (map (base_current incl tod) (filter is_continuous lds))"
  "non_continuous_current (calculate_load_current lds incl tod) =
      sum_list (map (base_current incl tod) (filter (\<lambda>l. \<not> is_continuous l) lds))"
  "design_current (calculate_load_current lds incl tod) =
      sum_list (map (base_current incl tod) (filter is_continuous lds)) * 1.25
      + sum_list (map (base_current incl tod) (filter (\<lambda>l. \<not> is_continuous l) lds))"
  "motor_starting_peak (calculate_load_current lds incl tod) =
      Max (set (0 # motor_starting_currents incl tod lds))"
proof -
  obtain c n m h where L: "load_loop incl tod lds 0 0 0 [] = (c, n, m, h)"
    by (metis prod_cases4)
  note T = load_loop_totals [OF L]
  show "continuous_current (calculate_load_current lds incl tod) =
      sum_list (map (base_current incl tod) (filter is_continuous lds))"
    using T by (simp add: calculate_load_current_def L)
  show "non_continuous_current (calculate_load_current lds incl tod) =
      sum_list (map (base_current incl tod) (filter (\<lambda>l. \<not> is_continuous l) lds))"
    using T by (simp add: calculate_load_current_def L)
  show "design_current (calculate_load_current lds incl tod) =
      sum_list (map (base_current incl tod) (filter is_continuous lds)) * 1.25
      + sum_list (map (base_current incl tod) (filter (\<lambda>l. \<not> is_continuous l) lds))"
    using T by (simp add: calculate_load_current_def L)
  show "motor_starting_peak (calculate_load_current lds incl tod) =
      Max (set (0 # motor_starting_currents incl tod lds))"
    using T by (simp only: Max.set_eq_fold) (simp add: calculate_load_current_def L)
qed

text \<open>
  C8: a load's scaled base current counts as continuous exactly when the load is critical or
  its type is lighting or electronic, and as non-continuous otherwise; the design current is
  1.25 times the continuous total plus the non-continuous total; the motor starting peak is
  the largest (not the sum) of the starting currents of the motor loads, taken from a start
  value of 0, hence 0 with no motor load and the maximum over the motor loads as soon as
  one of their starting currents is not negative; with no loads every aggregate is zero.
\<close>

theorem calculate_load_current_aggregates:
  "continuous_current (calculate_load_current lds incl tod) =
      sum_list (map (base_current incl tod) (filter is_continuous lds))
   \<and> non_continuous_current (calculate_load_current lds incl tod) =
      sum_list (map (base_current incl tod) (filter (\<lambda>l. \<not> is_continuous l) lds))
   \<and> design_current (calculate_load_current lds incl tod) =
      continuous_current (calculate_load_current lds incl tod) * 1.25
      + non_continuous_current (calculate_load_current lds incl tod)
   \<and> motor_starting_peak (calculate_load_current lds incl tod) =
      Max (set (0 # motor_starting_currents incl tod lds))
   \<and> ((\<exists>x \<in> set (motor_starting_currents incl tod lds). 0 \<le> x) \<longrightarrow>
        motor_starting_peak (calculate_load_current lds incl tod) =
        Max (set (motor_starting_currents incl tod lds)))
   \<and> calculate_load_current [] incl tod =
      \<lparr>continuous_current = 0, non_continuous_current = 0, design_current = 0,
       motor_starting_peak = 0, harmonic_currents = []\<rparr>"
proof -
  have peak: "motor_starting_peak (calculate_load_current lds incl tod) =
        Max (set (motor_starting_currents incl tod lds))"
    if "\<exists>x \<in> set (motor_starting_currents incl tod lds). 0 \<le> x"
  proof -
    let ?S = "set (motor_starting_currents incl tod lds)"
    from that obtain x where x: "x \<in> ?S" "0 \<le> x" by blast
    have fin: "finite ?S" and ne: "?S \<noteq> {}" using x by auto
    have "0 \<le> Max ?S" using x Max_ge [OF fin x(1)] by linarith
    then have "Max (insert 0 ?S) = Max ?S"
      using Max_insert [OF fin ne, of 0] by (simp add: max_def)
    then show ?thesis by (simp add: calculate_load_current_totals(4))
  qed
  have empty: "calculate_load_current [] incl tod =
      \<lparr>continuous_current = 0, non_continuous_current = 0, design_current = 0,
       motor_starting_peak = 0, harmonic_currents = []\<rparr>"
    by (simp add: calculate_load_current_def)
  show ?thesis
    using peak empty by (simp add: calculate_load_current_totals)
qed

theorem calculate_load_current_aggregates_witness:
  "(\<exists>x \<in> set (motor_starting_currents True None
                 [example_load, motor_load 10 6, motor_load 20 2]). 0 \<le> x)
   \<and> motor_starting_currents True None [example_load, motor_load 10 6, motor_load 20 2] = [60, 40]
   \<and> motor_starting_peak (calculate_load_current
        [example_load, motor_load 10 6, motor_load 20 2] True None) = 60
   \<and> continuous_current (calculate_load_current
        [example_load, motor_load 10 6, motor_load 20 2] True None) = 12
   \<and> non_continuous_current (calculate_load_current
        [example_load, motor_load 10 6, motor_load 20 2] True None) = 30
   \<and> design_current (calculate_load_current
        [example_load, motor_load 10 6, motor_load 20 2] True None) = 45"
proof -
  have ms: "motor_starting_currents True None [example_load, motor_load 10 6, motor_load 20 2]
      = [60, 40]"
    by (simp add: motor_starting_currents_def example_load_def motor_load_def base_current_def)
  have h: "\<exists>x \<in> set (motor_starting_currents True None
                 [example_load, motor_load 10 6, motor_load 20 2]). 0 \<le> x"
    by (simp add: ms)
  have c: "is_continuous example_load" "\<not> is_continuous (motor_load 10 6)"
      "\<not> is_continuous (motor_load 20 2)"
    by (simp_all add: is_continuous_def example_load_def motor_load_def)
  have b: "base_current True None example_load = 12" "base_current True None (motor_load 10 6) = 10"
      "base_current True None (motor_load 20 2) = 20"
    by (simp_all add: base_current_def example_load_def motor_load_def)
  show ?thesis
    using h calculate_load_current_aggregates
      [of "[example_load, motor_load 10 6, motor_load 20 2]" True None]
    by (simp add: ms c b)
qed


section \<open>The state left by validation\<close>

lemma validate_state:
  "fst (validate_system_constraints st c) = release_circuit (add_circuit st c) c"
  by (simp add: validate_system_constraints_def Let_def)

lemma report_state:
  "fst (generate_integration_report st c now) =
     (case snd (validate_system_constraints st c) of
        Inl e \<Rightarrow> release_circuit (add_circuit st c) c
      | Inr cs \<Rightarrow> release_circuit (add_circuit (release_circuit (add_circuit st c) c) c) c)"
  by (simp add: generate_integration_report_def validate_system_constraints_def Let_def
      split: sum.splits)

lemma circuits_add: "circuits (add_circuit st c) = (circuits st)(circuit_id c \<mapsto> c)"
  by (simp add: add_circuit_def Let_def split: option.splits)

lemma config_add: "config (add_circuit st c) = config st"
  by (simp add: add_circuit_def Let_def split: option.splits)

lemma circuits_release:
  "circuits (release_circuit st c) = (circuits st)(circuit_id c := None)"
  by (auto simp: release_circuit_def Let_def split: option.splits)

lemma config_release: "config (release_circuit st c) = config st"
  by (simp add: release_circuit_def Let_def split: option.splits)

lemma circuits_graft_release:
  "circuits (release_circuit (add_circuit st c) c) = (circuits st)(circuit_id c := None)"
  by (simp add: circuits_release circuits_add)

lemma hierarchy_graft_release:
  "system_hierarchy (release_circuit (add_circuit st c) c) q = Some ch \<Longrightarrow>
     \<exists>ch0. (system_hierarchy st q = Some ch0 \<or> ch0 = []) \<and>
           (ch = ch0 \<or> ch = remove1 (circuit_id c) ch0 \<or> ch = remove1 (circuit_id c) (ch0 @ [circuit_id c]))"
  by (auto simp: release_circuit_def add_circuit_def Let_def split: option.splits if_splits)

lemma remove1_append_fresh: "x \<notin> set xs \<Longrightarrow> remove1 x (xs @ [x]) = xs"
  by (induction xs) auto

lemma graft_release_keeps_absent:
  assumes "\<not> in_hierarchy st (circuit_id c)"
  shows "\<not> in_hierarchy (release_circuit (add_circuit st c) c) (circuit_id c)"
proof
  assume "in_hierarchy (release_circuit (add_circuit st c) c) (circuit_id c)"
  then obtain q ch where q: "system_hierarchy (release_circuit (add_circuit st c) c) q = Some ch"
      and m: "circuit_id c \<in> set ch"
    unfolding in_hierarchy_def by blast
  from hierarchy_graft_release [OF q] obtain ch0 where
      c0: "system_hierarchy st q = Some ch0 \<or> ch0 = []" and
      sh: "ch = ch0 \<or> ch = remove1 (circuit_id c) ch0 \<or> ch = remove1 (circuit_id c) (ch0 @ [circuit_id c])"
    by blast
  have fresh: "circuit_id c \<notin> set ch0"
    using c0 assms unfolding in_hierarchy_def by auto
  from sh fresh have "ch = ch0"
    by (auto simp: remove1_append_fresh remove1_idem)
  with m fresh show False by simp
qed


section \<open>Evaluation on the example data\<close>

lemma wire12: "get_wire_properties ''12'' = Some (mk_wire ''12'' 80.8 6530 1.93 20 25 30)"
  by (simp add: get_wire_properties_def WIRE_DATA_def)

lemma wire10: "get_wire_properties ''10'' = Some (mk_wire ''10'' 101.9 10380 1.21 30 35 40)"
  by (simp add: get_wire_properties_def WIRE_DATA_def)

lemma temp30: "get_temperature_correction_factor 30 = 0.91"
  by (simp add: get_temperature_correction_factor_def temp_factors_def)

lemma wire14: "get_wire_properties ''14'' = Some (mk_wire ''14'' 64.1 4107 3.07 15 20 25)"
  by (simp add: get_wire_properties_def WIRE_DATA_def)

lemma load_resistive: "calculate_load_current [resistive_load i] True None =
   \<lparr>continuous_current = 0, non_continuous_current = i, design_current = i,
    motor_starting_peak = 0, harmonic_currents = []\<rparr>"
  by (simp add: calculate_load_current_def resistive_load_def example_load_def base_current_def Let_def)

lemma harmonic_resistive: "0 < i \<Longrightarrow> analyze_harmonic_distortion [resistive_load i] =
   Inr \<lparr>thd_voltage_percent = 0, thd_current_percent = 0, individual_harmonics = [],
        k_factor_transformers = 1, neutral_current_percent = 0\<rparr>"
  by (simp add: analyze_harmonic_distortion_def resistive_load_def example_load_def bindE_def)

lemma harmonic_check_resistive:
  "0 < i \<Longrightarrow> loads c = [resistive_load i] \<Longrightarrow> harmonic_check init_config c =
     Inr \<lparr>constraint_name = ''Current THD'', current_value = 0, limit_value = 20,
          margin_percent = 100, passes_check = True, severity_level = ''info'',
          recommendation = ''Harmonic levels acceptable''\<rparr>"
  by (simp add: harmonic_check_def harmonic_resistive init_config_def config_get_def
      bindE_def pydiv_def)

lemma thermal_branch_12:
  "wire_awg c = ''12'' \<Longrightarrow> ambient_temperature_c c = 30 \<Longrightarrow> number_of_conductors c = 3 \<Longrightarrow>
   loads c = [resistive_load i] \<Longrightarrow> i \<le> 91 / 4 \<Longrightarrow>
   analyze_thermal_performance init_config c =
     Inr \<lparr>conductor_temperature_c = 30 + 45 * (i / (91 / 4)) ^ 2, ampacity_derated = 91 / 4,
          thermal_margin_percent = (91 / 4 - i) / (91 / 4) * 100,
          time_to_thermal_limit_minutes = Infinity,
          cooling_required = (i > 91 / 4 * 0.75)\<rparr>"
  by (simp add: analyze_thermal_performance_def wire12 temp30 load_resistive get_ampacity_def
      get_conduit_fill_correction_factor_def mk_wire_def init_config_def bindE_def pydiv_def Let_def
      mult.commute)

lemma panel_thermal:
  "analyze_thermal_performance init_config panel_circuit = Inr panel_thermal_result"
  by (simp add: panel_thermal_result_def analyze_thermal_performance_def panel_circuit_def example_circuit_def wire14 temp30
      calculate_load_current_def get_ampacity_def
      get_conduit_fill_correction_factor_def mk_wire_def init_config_def bindE_def pydiv_def Let_def)

lemma overload_thermal_check:
  "thermal_check init_config overload_child =
     Inr \<lparr>constraint_name = ''Conductor Ampacity'', current_value = 91 / 4,
          limit_value = 19, margin_percent = 1500 / 91, passes_check = False,
          severity_level = ''warning'',
          recommendation = ''Increase wire size or reduce load''\<rparr>"
proof -
  have "analyze_thermal_performance init_config overload_child =
     Inr \<lparr>conductor_temperature_c = 30 + 45 * (19 / (91 / 4)) ^ 2, ampacity_derated = 91 / 4,
          thermal_margin_percent = (91 / 4 - 19) / (91 / 4) * 100,
          time_to_thermal_limit_minutes = Infinity,
          cooling_required = ((19::real) > 91 / 4 * 0.75)\<rparr>"
    by (rule thermal_branch_12) (simp_all add: overload_child_def example_circuit_def)
  then show ?thesis
    by (simp add: thermal_check_def bindE_def init_config_def config_get_def load_resistive
        overload_child_def example_circuit_def)
qed

lemma heavy_thermal_check:
  "thermal_check init_config heavy_child =
     Inr \<lparr>constraint_name = ''Conductor Ampacity'', current_value = 91 / 4,
          limit_value = 16, margin_percent = 2700 / 91, passes_check = True,
          severity_level = ''info'',
          recommendation = ''Adequate thermal margin''\<rparr>"
proof -
  have "analyze_thermal_performance init_config heavy_child =
     Inr \<lparr>conductor_temperature_c = 30 + 45 * (16 / (91 / 4)) ^ 2, ampacity_derated = 91 / 4,
          thermal_margin_percent = (91 / 4 - 16) / (91 / 4) * 100,
          time_to_thermal_limit_minutes = Infinity,
          cooling_required = ((16::real) > 91 / 4 * 0.75)\<rparr>"
    by (rule thermal_branch_12) (simp_all add: heavy_child_def example_circuit_def)
  then show ?thesis
    by (simp add: thermal_check_def bindE_def init_config_def config_get_def load_resistive
        heavy_child_def example_circuit_def)
qed

lemma short_run_thermal_check:
  "thermal_check init_config short_run_circuit =
     Inr \<lparr>constraint_name = ''Conductor Ampacity'', current_value = 91 / 4,
          limit_value = 10, margin_percent = 5100 / 91, passes_check = True,
          severity_level = ''info'',
          recommendation = ''Adequate thermal margin''\<rparr>"
proof -
  have "analyze_thermal_performance init_config short_run_circuit =
     Inr \<lparr>conductor_temperature_c = 30 + 45 * (10 / (91 / 4)) ^ 2, ampacity_derated = 91 / 4,
          thermal_margin_percent = (91 / 4 - 10) / (91 / 4) * 100,
          time_to_thermal_limit_minutes = Infinity,
          cooling_required = ((10::real) > 91 / 4 * 0.75)\<rparr>"
    by (rule thermal_branch_12) (simp_all add: short_run_circuit_def example_circuit_def)
  then show ?thesis
    by (simp add: thermal_check_def bindE_def init_config_def config_get_def load_resistive
        short_run_circuit_def example_circuit_def)
qed

lemma voltage_within_limit_12:
  assumes "wire_awg c = ''12''" "voltage_rating c = 120" "loads c = [resistive_load i]"
    and "i * (193 / 100000 * wire_length_ft c * 2) / 120 * 100 \<le> 3"
  shows "voltage_check init_config c =
     Inr \<lparr>constraint_name = ''Voltage Drop'',
          current_value = i * (193 / 100000 * wire_length_ft c * 2) / 120 * 100,
          limit_value = 3,
          margin_percent = (3 - i * (193 / 100000 * wire_length_ft c * 2) / 120 * 100) / 3 * 100,
          passes_check = True, severity_level = ''info'',
          recommendation = ''Voltage drop acceptable''\<rparr>"
  using assms
  by (simp add: voltage_check_def analyze_voltage_drop_def wire12 load_resistive mk_wire_def
      init_config_def bindE_def pydiv_def Let_def)

lemma overload_voltage_check:
  "voltage_check init_config overload_child =
     Inr \<lparr>constraint_name = ''Voltage Drop'', current_value = 3667 / 6000,
          limit_value = 3, margin_percent = 14333 / 180, passes_check = True,
          severity_level = ''info'', recommendation = ''Voltage drop acceptable''\<rparr>"
  using voltage_within_limit_12 [of overload_child 19]
  by (simp add: overload_child_def example_circuit_def)

lemma heavy_voltage_check:
  "voltage_check init_config heavy_child =
     Inr \<lparr>constraint_name = ''Voltage Drop'', current_value = 193 / 375,
          limit_value = 3, margin_percent = 3728 / 45, passes_check = True,
          severity_level = ''info'', recommendation = ''Voltage drop acceptable''\<rparr>"
  using voltage_within_limit_12 [of heavy_child 16]
  by (simp add: heavy_child_def example_circuit_def)

lemma short_run_voltage_check:
  "voltage_check init_config short_run_circuit =
     Inr \<lparr>constraint_name = ''Voltage Drop'', current_value = 579 / 200,
          limit_value = 3, margin_percent = 7 / 2, passes_check = True,
          severity_level = ''info'', recommendation = ''Voltage drop acceptable''\<rparr>"
  using voltage_within_limit_12 [of short_run_circuit 10]
  by (simp add: short_run_circuit_def example_circuit_def)

lemma panel_only_graft:
  assumes "parent_circuit_id c = Some ''PANEL''" "circuit_id c \<noteq> ''PANEL''"
  shows "circuits (add_circuit panel_only_state c) ''PANEL'' = Some panel_circuit"
    and "system_hierarchy (add_circuit panel_only_state c) ''PANEL'' = Some [circuit_id c]"
    and "circuits (add_circuit panel_only_state c) (circuit_id c) = Some c"
    and "config (add_circuit panel_only_state c) = init_config"
  using assms
  by (simp_all add: add_circuit_def panel_only_state_def init_state_def panel_circuit_def
      example_circuit_def Let_def)

lemma init_limits:
  "config_get (parent_loading_limit_percent init_config) 80 = 80"
  "config_get (thd_current_limit_percent init_config) 20 = 20"
  "config_get (thermal_margin_min_percent init_config) 20 = 20"
  "voltage_drop_limit_percent init_config = 3"
  by (simp_all add: init_config_def config_get_def)

lemma panel_only_parent_check:
  assumes "parent_circuit_id c = Some ''PANEL''" "circuit_id c \<noteq> ''PANEL''"
    and "loads c = [resistive_load i]"
  shows "parent_check (add_circuit panel_only_state c) c =
     Inr [\<lparr>constraint_name = ''Parent Circuit Loading'',
           current_value = i / (91 / 5) * 100, limit_value = 80,
           margin_percent = 80 - i / (91 / 5) * 100,
           passes_check = (i / (91 / 5) * 100 \<le> 80),
           severity_level = (if i / (91 / 5) * 100 > 100 then ''critical''
                             else if i / (91 / 5) * 100 > 80 then ''warning'' else ''info''),
           recommendation = (if i / (91 / 5) * 100 > 80
                             then ''Upgrade parent circuit or redistribute loads''
                             else ''Parent circuit adequate'')\<rparr>]"
  using assms(1,3)
  by (simp add: parent_check_def parent_loading_check_def panel_only_graft [OF assms(1,2)]
      panel_thermal panel_thermal_result_def load_resistive init_limits bindE_def pydiv_def Let_def)

lemma validate_below_panel:
  assumes p: "parent_circuit_id c = Some ''PANEL''" "circuit_id c \<noteq> ''PANEL''"
      "loads c = [resistive_load i]" and i: "0 < i"
    and t: "thermal_check init_config c = Inr c1"
    and v: "voltage_check init_config c = Inr c2"
  shows "snd (validate_system_constraints panel_only_state c) =
     Inr [c1, c2,
          \<lparr>constraint_name = ''Parent Circuit Loading'',
            current_value = i / (91 / 5) * 100, limit_value = 80,
            margin_percent = 80 - i / (91 / 5) * 100,
            passes_check = (i / (91 / 5) * 100 \<le> 80),
            severity_level = (if i / (91 / 5) * 100 > 100 then ''critical''
                              else if i / (91 / 5) * 100 > 80 then ''warning'' else ''info''),
            recommendation = (if i / (91 / 5) * 100 > 80
                              then ''Upgrade parent circuit or redistribute loads''
                              else ''Parent circuit adequate'')\<rparr>,
          thd_check_no_harmonics]"
  unfolding validate_system_constraints_def evaluate_constraints_def Let_def snd_conv
    panel_only_graft(4) [OF p(1,2)] t v panel_only_parent_check [OF p]
    harmonic_check_resistive [OF i p(3)] thd_check_no_harmonics_def bindE_def
  by simp

lemma overload_validate:
  "snd (validate_system_constraints panel_only_state overload_child) = Inr overload_checks"
proof -
  have p: "parent_circuit_id overload_child = Some ''PANEL''"
      "circuit_id overload_child \<noteq> ''PANEL''" "loads overload_child = [resistive_load 19]"
    by (simp_all add: overload_child_def example_circuit_def)
  show ?thesis
    using validate_below_panel [OF p _ overload_thermal_check overload_voltage_check]
    by (simp add: overload_checks_def)
qed

lemma heavy_validate:
  "snd (validate_system_constraints panel_only_state heavy_child) = Inr heavy_checks"
proof -
  have p: "parent_circuit_id heavy_child = Some ''PANEL''"
      "circuit_id heavy_child \<noteq> ''PANEL''" "loads heavy_child = [resistive_load 16]"
    by (simp_all add: heavy_child_def example_circuit_def)
  show ?thesis
    using validate_below_panel [OF p _ heavy_thermal_check heavy_voltage_check]
    by (simp add: heavy_checks_def)
qed

lemma short_run_validate:
  "snd (validate_system_constraints init_state short_run_circuit) = Inr short_run_checks"
proof -
  have h: "harmonic_check init_config short_run_circuit = Inr thd_check_no_harmonics"
    unfolding thd_check_no_harmonics_def
    by (rule harmonic_check_resistive [of 10]) (simp_all add: short_run_circuit_def)
  have n: "parent_check (add_circuit init_state short_run_circuit) short_run_circuit = Inr []"
    by (simp add: parent_check_def short_run_circuit_def example_circuit_def)
  have g: "config (add_circuit init_state short_run_circuit) = init_config"
    by (simp add: config_add init_state_def)
  show ?thesis
    unfolding validate_system_constraints_def evaluate_constraints_def Let_def snd_conv
      g short_run_thermal_check short_run_voltage_check n h bindE_def short_run_checks_def
    by simp
qed


section \<open>Release of the candidate\<close>

text \<open>
  C1 (amended): after \<open>validate_system_constraints\<close> or
  \<open>generate_integration_report\<close>, whether it returned or raised, the candidate's identity is
  not a key of the circuit registry; and when no list of children held that identity before
  the call, none holds it after the call.
\<close>

theorem release_removes_candidate:
  "circuits (fst (validate_system_constraints st c)) (circuit_id c) = None
   \<and> circuits (fst (generate_integration_report st c now)) (circuit_id c) = None
   \<and> (\<not> in_hierarchy st (circuit_id c) \<longrightarrow>
        \<not> in_hierarchy (fst (validate_system_constraints st c)) (circuit_id c)
        \<and> \<not> in_hierarchy (fst (generate_integration_report st c now)) (circuit_id c))"
proof -
  have a: "circuits (fst (validate_system_constraints st c)) (circuit_id c) = None"
    by (simp add: validate_state circuits_graft_release)
  have b: "circuits (fst (generate_integration_report st c now)) (circuit_id c) = None"
    by (simp add: report_state circuits_graft_release split: sum.splits)
  have d: "\<not> in_hierarchy (fst (validate_system_constraints st c)) (circuit_id c)"
      and e: "\<not> in_hierarchy (fst (generate_integration_report st c now)) (circuit_id c)"
    if f: "\<not> in_hierarchy st (circuit_id c)"
  proof -
    note g = graft_release_keeps_absent [OF f]
    show "\<not> in_hierarchy (fst (validate_system_constraints st c)) (circuit_id c)"
      using g by (simp add: validate_state)
    show "\<not> in_hierarchy (fst (generate_integration_report st c now)) (circuit_id c)"
      using g graft_release_keeps_absent [OF g]
      by (simp add: report_state split: sum.splits)
  qed
  from a b d e show ?thesis by blast
qed

lemma wire13: "get_wire_properties ''13'' = None"
  by (simp add: get_wire_properties_def WIRE_DATA_def)

lemma unknown_wire_raises:
  "snd (validate_system_constraints init_state unknown_wire_circuit)
     = Inl (ValueError_UnknownWireSize ''13'')"
  by (simp add: validate_system_constraints_def evaluate_constraints_def thermal_check_def
      analyze_thermal_performance_def unknown_wire_circuit_def child_circuit_def
      example_circuit_def wire13 bindE_def Let_def)

theorem release_removes_candidate_witness:
  "\<not> in_hierarchy init_state (circuit_id unknown_wire_circuit)
   \<and> snd (validate_system_constraints init_state unknown_wire_circuit)
        = Inl (ValueError_UnknownWireSize ''13'')
   \<and> circuits (fst (validate_system_constraints init_state unknown_wire_circuit))
        (circuit_id unknown_wire_circuit) = None
   \<and> \<not> in_hierarchy (fst (validate_system_constraints init_state unknown_wire_circuit))
        (circuit_id unknown_wire_circuit)
   \<and> \<not> in_hierarchy (fst (generate_integration_report init_state unknown_wire_circuit (Inr ''t'')))
        (circuit_id unknown_wire_circuit)"
proof -
  have h: "\<not> in_hierarchy init_state (circuit_id unknown_wire_circuit)"
    by (simp add: in_hierarchy_def init_state_def)
  show ?thesis
    using h release_removes_candidate [of init_state unknown_wire_circuit "Inr ''t''"] unknown_wire_raises
    by simp
qed

lemma panel_state_hierarchy:
  "system_hierarchy (fst (validate_system_constraints panel_state child_circuit)) ''PANEL''
     = Some [''BRANCH-201'']"
  by (simp add: validate_state panel_state_def release_circuit_def add_circuit_def Let_def
      init_state_def child_circuit_def panel_circuit_def example_circuit_def)

text \<open>
  C1 as stated fails when the candidate's identity is already listed under its parent: the
  release removes one occurrence only, so the identity is still in the hierarchy index after
  validating a circuit that had been added before.
\<close>

theorem colliding_id_stays_in_hierarchy:
  "circuit_id child_circuit = ''BRANCH-201''
   \<and> system_hierarchy (fst (validate_system_constraints panel_state child_circuit)) ''PANEL''
       = Some [''BRANCH-201'']
   \<and> in_hierarchy (fst (validate_system_constraints panel_state child_circuit))
       (circuit_id child_circuit)"
proof -
  have i: "circuit_id child_circuit = ''BRANCH-201''"
    by (simp add: child_circuit_def example_circuit_def)
  have "in_hierarchy (fst (validate_system_constraints panel_state child_circuit)) ''BRANCH-201''"
    unfolding in_hierarchy_def using panel_state_hierarchy by fastforce
  with i panel_state_hierarchy show ?thesis by simp
qed


section \<open>Effect of validation on the registry\<close>

text \<open>
  C10: validation leaves the registry as it was with the candidate's identity removed. So a
  circuit persisted under the candidate's identity is gone after the call, and when the
  identity was not registered the registry is unchanged.
\<close>

theorem validate_circuits_frame:
  "circuits (fst (validate_system_constraints st c)) = (circuits st)(circuit_id c := None)
   \<and> (circuits st (circuit_id c) = Some persisted \<longrightarrow>
        circuits (fst (validate_system_constraints st c)) (circuit_id c) = None)
   \<and> (circuits st (circuit_id c) = None \<longrightarrow>
        circuits (fst (validate_system_constraints st c)) = circuits st)"
  by (auto simp: validate_state circuits_graft_release)


lemma panel_state_circuits:
  "circuits panel_state = [''PANEL'' \<mapsto> panel_circuit, ''BRANCH-201'' \<mapsto> child_circuit]"
  by (simp add: panel_state_def circuits_add init_state_def panel_circuit_def child_circuit_def
      example_circuit_def)

theorem validate_circuits_frame_witness:
  "circuits panel_state (circuit_id (child_circuit\<lparr>wire_length_ft := 50\<rparr>)) = Some child_circuit
   \<and> circuits (fst (validate_system_constraints panel_state (child_circuit\<lparr>wire_length_ft := 50\<rparr>)))
        (circuit_id (child_circuit\<lparr>wire_length_ft := 50\<rparr>)) = None
   \<and> circuits panel_state (circuit_id (example_circuit\<lparr>circuit_id := ''NEW''\<rparr>)) = None
   \<and> circuits (fst (validate_system_constraints panel_state (example_circuit\<lparr>circuit_id := ''NEW''\<rparr>)))
        = circuits panel_state"
proof -
  have h1: "circuits panel_state (circuit_id (child_circuit\<lparr>wire_length_ft := 50\<rparr>))
      = Some child_circuit"
    by (simp add: panel_state_circuits child_circuit_def example_circuit_def)
  have h2: "circuits panel_state (circuit_id (example_circuit\<lparr>circuit_id := ''NEW''\<rparr>)) = None"
    by (simp add: panel_state_circuits)
  note t1 = validate_circuits_frame
      [of panel_state "child_circuit\<lparr>wire_length_ft := 50\<rparr>" child_circuit]
  note t2 = validate_circuits_frame
      [of panel_state "example_circuit\<lparr>circuit_id := ''NEW''\<rparr>" child_circuit]
  from t1 h1 have a: "circuits (fst (validate_system_constraints panel_state
        (child_circuit\<lparr>wire_length_ft := 50\<rparr>)))
        (circuit_id (child_circuit\<lparr>wire_length_ft := 50\<rparr>)) = None"
    by (elim conjE) (erule (1) mp)
  from t2 h2 have b: "circuits (fst (validate_system_constraints panel_state
        (example_circuit\<lparr>circuit_id := ''NEW''\<rparr>))) = circuits panel_state"
    by (elim conjE) (erule (1) mp)
  show ?thesis
    by (intro conjI) (rule h1 a h2 b)+
qed


section \<open>Divisions that raise\<close>

lemma temp56: "get_temperature_correction_factor 56 = 0"
  by (simp add: get_temperature_correction_factor_def temp_factors_def)

text \<open>
  C3: the claim that no analyzer raises on in-range inputs fails on the code. At an ambient
  temperature of 56 degrees the correction factor is 0, the derated ampacity is 0, and the
  thermal analysis (and with it the validation) raises a division by zero; a load of nominal
  current 0 with harmonic content makes the k-factor of the harmonic analysis divide by a
  zero fundamental.
\<close>

theorem analyzers_raise_division_by_zero:
  "analyze_thermal_performance init_config hot_circuit = Inl ZeroDivisionError
   \<and> snd (validate_system_constraints init_state hot_circuit) = Inl ZeroDivisionError
   \<and> analyze_harmonic_distortion [idle_harmonic_load] = Inl ZeroDivisionError"
proof -
  have t: "analyze_thermal_performance init_config hot_circuit = Inl ZeroDivisionError"
    by (simp add: analyze_thermal_performance_def hot_circuit_def example_circuit_def wire12
        temp56 Let_def bindE_def pydiv_def)
  have v: "snd (validate_system_constraints init_state hot_circuit) = Inl ZeroDivisionError"
    using t
    by (simp add: validate_system_constraints_def evaluate_constraints_def thermal_check_def
        config_add init_state_def bindE_def Let_def)
  have h: "analyze_harmonic_distortion [idle_harmonic_load] = Inl ZeroDivisionError"
    by (simp add: analyze_harmonic_distortion_def idle_harmonic_load_def example_load_def
        Let_def bindE_def pydiv_def)
  from t v h show ?thesis by simp
qed


section \<open>The integration report\<close>

text \<open>The status that the \<^verbatim>\<open>try\<close> body computes from the checks, were the
  timestamp expression to give a string.\<close>

lemma report_body_status:
  assumes "report_body cfg c cs now = Inr rep"
  shows "constraint_checks rep = cs
       \<and> overall_status rep =
           (if filter (\<lambda>c. severity_level c = ''critical'') cs \<noteq> [] then ''FAIL''
            else if filter (\<lambda>c. severity_level c = ''warning'') cs \<noteq> [] then ''PASS_WITH_WARNINGS''
            else ''PASS'')"
  using assms
  by (auto simp: report_body_def bindE_def Let_def split: sum.splits)

lemma example_load_current:
  "calculate_load_current [example_load] True None =
     \<lparr>continuous_current = 12, non_continuous_current = 0, design_current = 15,
      motor_starting_peak = 0, harmonic_currents = [(3, 6 / 5), (5, 3 / 5)]\<rparr>"
  by (simp add: calculate_load_current_def example_load_def base_current_def Let_def)

lemma wire8: "get_wire_properties ''8'' = Some (mk_wire ''8'' 128.5 16510 0.764 40 50 55)"
  by (simp add: get_wire_properties_def WIRE_DATA_def)

lemma example_thermal_returns:
  "\<exists>t. analyze_thermal_performance init_config example_circuit = Inr t"
  by (simp add: analyze_thermal_performance_def example_circuit_def wire12 temp30
      example_load_current get_ampacity_def get_conduit_fill_correction_factor_def mk_wire_def
      init_config_def bindE_def pydiv_def Let_def)

lemma example_voltage_returns:
  "\<exists>v. analyze_voltage_drop init_config example_circuit = Inr v"
  by (simp add: analyze_voltage_drop_def recommend_wire_upgrade_def example_circuit_def
      wire12 wire10 wire8 mk_wire_def example_load_current init_limits wire_sizes_def
      test_vd_percent_def bindE_def pydiv_def Let_def)

lemma example_harmonic_returns:
  "\<exists>h. analyze_harmonic_distortion [example_load] = Inr h"
  by (simp add: analyze_harmonic_distortion_def example_load_def bindE_def pydiv_def Let_def)

lemma example_validate_returns:
  "\<exists>cs. snd (validate_system_constraints init_state example_circuit) = Inr cs"
proof -
  from example_thermal_returns obtain t where
      t: "analyze_thermal_performance init_config example_circuit = Inr t" by (elim exE)
  from example_voltage_returns obtain v where
      v: "analyze_voltage_drop init_config example_circuit = Inr v" by (elim exE)
  from example_harmonic_returns obtain h where
      h: "analyze_harmonic_distortion (loads example_circuit) = Inr h"
    by (auto simp: example_circuit_def)
  have g: "config (add_circuit init_state example_circuit) = init_config"
    by (simp add: config_add init_state_def)
  have n: "parent_check (add_circuit init_state example_circuit) example_circuit = Inr []"
    by (simp add: parent_check_def example_circuit_def)
  show ?thesis
    unfolding validate_system_constraints_def evaluate_constraints_def Let_def snd_conv g n
      thermal_check_def voltage_check_def harmonic_check_def t v h
    by (simp add: bindE_def pydiv_def init_limits)
qed

lemma validate_config: "config (fst (validate_system_constraints st c)) = config st"
  by (simp add: validate_state config_release config_add)

lemma report_after_validation:
  assumes "snd (validate_system_constraints st c) = Inr cs"
  shows "snd (generate_integration_report st c now) = report_body (config st) c cs now"
proof (cases "validate_system_constraints st c")
  case (Pair st1 r)
  with assms have r: "r = Inr cs" by simp
  from Pair have "config st1 = config st"
    using validate_config [of st c] by simp
  with Pair r show ?thesis
    by (simp add: generate_integration_report_def Let_def config_add)
qed

text \<open>
  C7: the claim speaks of the reports that \<open>generate_integration_report\<close> produces, and the
  code produces none. The timestamp expression inside the \<^verbatim>\<open>try\<close> body raises, so the
  method raises on every call: the analyzer's own error when one of the analyses raises,
  and \<^verbatim>\<open>AttributeError\<close> otherwise, as for the circuit of the module's usage example, where
  the example goes on to print the report's status.
\<close>

theorem report_raises_attribute_error:
  "isl (snd (generate_integration_report st c datetime64_now_isoformat))
   \<and> snd (generate_integration_report init_state example_circuit datetime64_now_isoformat)
       = Inl AttributeError"
proof -
  have a: "isl (snd (generate_integration_report st c datetime64_now_isoformat))"
    by (auto simp: generate_integration_report_def report_body_def bindE_def
        datetime64_now_isoformat_def Let_def split: prod.splits sum.splits)
  from example_validate_returns obtain cs where
      cs: "snd (validate_system_constraints init_state example_circuit) = Inr cs" by (elim exE)
  from example_thermal_returns obtain t where
      t: "analyze_thermal_performance init_config example_circuit = Inr t" by (elim exE)
  from example_voltage_returns obtain v where
      v: "analyze_voltage_drop init_config example_circuit = Inr v" by (elim exE)
  from example_harmonic_returns obtain h where
      h: "analyze_harmonic_distortion (loads example_circuit) = Inr h"
    by (auto simp: example_circuit_def)
  have g: "config init_state = init_config"
    by (simp add: init_state_def)
  have b: "snd (generate_integration_report init_state example_circuit datetime64_now_isoformat)
       = Inl AttributeError"
    unfolding report_after_validation [OF cs] g
    by (simp add: report_body_def t v h bindE_def datetime64_now_isoformat_def)
  from a b show ?thesis by (rule conjI)
qed


section \<open>The parent's children\<close>

lemma design_current_append:
  "design_current (calculate_load_current (xs @ ys) incl tod) =
     design_current (calculate_load_current xs incl tod)
     + design_current (calculate_load_current ys incl tod)"
  by (simp add: calculate_load_current_totals(3) algebra_simps)

lemma collect_child_loads_append:
  "collect_child_loads st (xs @ ys) = collect_child_loads st xs @ collect_child_loads st ys"
  by (induction xs) simp_all

lemma children_design_current_append:
  "children_design_current st (xs @ ys) =
     children_design_current st xs + children_design_current st ys"
  by (simp add: children_design_current_def collect_child_loads_append design_current_append)

lemma children_design_current_Cons:
  "children_design_current st (x # xs) =
     children_design_current st [x] + children_design_current st xs"
  using children_design_current_append [of st "[x]" xs] by simp

lemma parent_check_children:
  "parent_circuit_id c = Some p \<Longrightarrow> p \<noteq> [] \<Longrightarrow> circuits st p = Some pc \<Longrightarrow>
     parent_check st c =
       parent_loading_check (config st) pc
         (calculate_load_current
            (collect_child_loads st (case system_hierarchy st p of None \<Rightarrow> [] | Some ch \<Rightarrow> ch))
            True None)"
  by (simp add: parent_check_def Let_def)

lemma parent_check_none:
  "parent_circuit_id c = None \<or> parent_circuit_id c = Some [] \<or>
   (\<exists>p. parent_circuit_id c = Some p \<and> circuits st p = None) \<Longrightarrow> parent_check st c = Inr []"
  by (auto simp: parent_check_def)

lemma hierarchy_add:
  "parent_circuit_id c = Some p \<Longrightarrow> p \<noteq> [] \<Longrightarrow>
     system_hierarchy (add_circuit st c) p =
       Some ((case system_hierarchy st p of None \<Rightarrow> [] | Some ch \<Rightarrow> ch) @ [circuit_id c])"
  by (simp add: add_circuit_def Let_def)

lemma hierarchy_release:
  "parent_circuit_id c = Some p \<Longrightarrow> system_hierarchy st p = Some ch \<Longrightarrow>
     circuits st (circuit_id c) \<noteq> None \<Longrightarrow>
     system_hierarchy (release_circuit st c) p = Some (remove1 (circuit_id c) ch)"
  by (simp add: release_circuit_def Let_def)


section \<open>The checks that validation builds\<close>

lemma min_by_key_mem: "min_by_key f b xs \<in> set (b # xs)"
  by (induction xs arbitrary: b) (auto split: if_splits)

lemma temp_factors_nonneg:
  "k \<in> set (map fst temp_factors) \<Longrightarrow>
     0 \<le> (case map_of temp_factors k of None \<Rightarrow> 0 | Some f \<Rightarrow> f)"
  by (auto simp: temp_factors_def)

lemma temperature_factor_nonneg: "0 \<le> get_temperature_correction_factor t"
proof -
  obtain k ks where ks: "map fst temp_factors = k # ks"
    by (simp add: temp_factors_def)
  have "min_by_key (\<lambda>x. \<bar>real_of_int x - t\<bar>) k ks \<in> set (map fst temp_factors)"
    unfolding ks by (rule min_by_key_mem)
  from temp_factors_nonneg [OF this] show ?thesis
    by (simp add: get_temperature_correction_factor_def ks)
qed

lemma fill_factor_pos: "0 < get_conduit_fill_correction_factor n f"
  by (simp add: get_conduit_fill_correction_factor_def)

lemma ampacity_nonneg: "0 \<le> get_ampacity awg r"
proof (cases "get_wire_properties awg")
  case None
  then show ?thesis by (simp add: get_ampacity_def)
next
  case (Some w)
  from wire_table_ampacity_order [OF wire_table_entry [OF Some]] Some
  show ?thesis by (simp add: get_ampacity_def)
qed

lemma thermal_derated:
  assumes "analyze_thermal_performance cfg c = Inr t"
  shows "ampacity_derated t =
           get_ampacity (wire_awg c) 75
           * get_temperature_correction_factor (ambient_temperature_c c)
           * get_conduit_fill_correction_factor (number_of_conductors c) (conduit_fill_percentage c)"
    and "ampacity_derated t \<noteq> 0"
  using assms
  by (auto simp: analyze_thermal_performance_def bindE_def pydiv_def Let_def
      split: option.splits sum.splits if_splits)

lemma thermal_derated_pos:
  assumes "analyze_thermal_performance cfg c = Inr t"
  shows "0 < ampacity_derated t"
proof -
  have "0 \<le> ampacity_derated t"
    unfolding thermal_derated(1) [OF assms]
    using ampacity_nonneg [of "wire_awg c" 75]
      temperature_factor_nonneg [of "ambient_temperature_c c"]
      fill_factor_pos [of "number_of_conductors c" "conduit_fill_percentage c"]
    by simp
  with thermal_derated(2) [OF assms] show ?thesis by simp
qed

lemma validate_result_parts:
  assumes "snd (validate_system_constraints st c) = Inr checks"
  shows "\<exists>c1 c2 c3 c4.
           thermal_check (config st) c = Inr c1
         \<and> voltage_check (config st) c = Inr c2
         \<and> parent_check (add_circuit st c) c = Inr c3
         \<and> harmonic_check (config st) c = Inr c4
         \<and> checks = [c1, c2] @ c3 @ [c4]"
  using assms
  by (auto simp: validate_system_constraints_def evaluate_constraints_def Let_def config_add
      bindE_def split: sum.splits)

lemma thermal_check_name:
  "thermal_check cfg c = Inr ck \<Longrightarrow> constraint_name ck = ''Conductor Ampacity''"
  by (auto simp: thermal_check_def bindE_def Let_def split: sum.splits)

lemma voltage_check_name:
  "voltage_check cfg c = Inr ck \<Longrightarrow> constraint_name ck = ''Voltage Drop''"
  by (auto simp: voltage_check_def bindE_def Let_def split: sum.splits)

lemma harmonic_check_name:
  "harmonic_check cfg c = Inr ck \<Longrightarrow> constraint_name ck = ''Current THD''"
  by (auto simp: harmonic_check_def bindE_def Let_def split: sum.splits)

lemma parent_loading_check_result:
  assumes "parent_loading_check cfg pc la = Inr cs"
      and "analyze_thermal_performance cfg pc = Inr pt"
  shows "\<exists>ck. cs = [ck]
         \<and> constraint_name ck = ''Parent Circuit Loading''
         \<and> current_value ck = design_current la / ampacity_derated pt * 100
         \<and> limit_value ck = config_get (parent_loading_limit_percent cfg) 80
         \<and> margin_percent ck = limit_value ck - current_value ck
         \<and> passes_check ck = (current_value ck \<le> limit_value ck)
         \<and> severity_level ck =
             (if current_value ck > 100 then ''critical''
              else if current_value ck > limit_value ck then ''warning'' else ''info'')"
proof (cases "ampacity_derated pt = 0")
  case True
  with assms show ?thesis
    by (simp add: parent_loading_check_def bindE_def pydiv_def)
next
  case False
  define x where "x = design_current la / ampacity_derated pt * 100"
  define l where "l = config_get (parent_loading_limit_percent cfg) 80"
  have "parent_loading_check cfg pc la =
     Inr [\<lparr>constraint_name = ''Parent Circuit Loading'',
           current_value = x, limit_value = l, margin_percent = l - x,
           passes_check = (x \<le> l),
           severity_level = (if x > 100 then ''critical''
                             else if x > l then ''warning'' else ''info''),
           recommendation = (if x > l then ''Upgrade parent circuit or redistribute loads''
                             else ''Parent circuit adequate'')\<rparr>]"
    unfolding parent_loading_check_def assms(2) bindE_def pydiv_def Let_def
    by (simp only: False if_False sum.case x_def [symmetric] l_def [symmetric])
  with assms(1) have "cs =
         [\<lparr>constraint_name = ''Parent Circuit Loading'',
           current_value = x, limit_value = l, margin_percent = l - x,
           passes_check = (x \<le> l),
           severity_level = (if x > 100 then ''critical''
                             else if x > l then ''warning'' else ''info''),
           recommendation = (if x > l then ''Upgrade parent circuit or redistribute loads''
                             else ''Parent circuit adequate'')\<rparr>]"
    by simp
  then show ?thesis
    unfolding x_def [symmetric] l_def [symmetric] by simp
qed

lemma thermal_check_severity:
  assumes "thermal_check cfg c = Inr ck"
  shows "severity_level ck =
           uniform_severity (margin_percent ck) (config_get (thermal_margin_min_percent cfg) 20)"
  using assms
  by (auto simp: thermal_check_def uniform_severity_def bindE_def Let_def split: sum.splits)

lemma analyze_voltage_drop_meets:
  assumes "analyze_voltage_drop cfg c = Inr r"
  shows "meets_code_requirements r = (voltage_drop_percent r \<le> voltage_drop_limit_percent cfg)"
  using assms
  by (auto simp: analyze_voltage_drop_def bindE_def Let_def
      split: option.splits sum.splits if_splits)

lemma margin_negative_iff:
  fixes x l :: real
  assumes "0 < l"
  shows "((l - x) / l * 100 < 0) = (l < x)"
  using assms by (simp add: field_simps)

lemma voltage_check_severity:
  assumes "voltage_check cfg c = Inr ck"
  shows "severity_level ck = (if current_value ck > limit_value ck then ''critical'' else ''info'')"
    and "0 < limit_value ck \<Longrightarrow> (current_value ck > limit_value ck) = (margin_percent ck < 0)"
proof -
  from assms obtain r where r: "analyze_voltage_drop cfg c = Inr r"
    by (auto simp: voltage_check_def bindE_def split: sum.splits)
  note m = analyze_voltage_drop_meets [OF r]
  define x where "x = voltage_drop_percent r"
  define l where "l = voltage_drop_limit_percent cfg"
  from assms r have f: "current_value ck = x" "limit_value ck = l"
      "margin_percent ck = (l - x) / l * 100"
      "severity_level ck = (if \<not> meets_code_requirements r then ''critical'' else ''info'')"
    unfolding x_def l_def
    by (auto simp: voltage_check_def bindE_def pydiv_def Let_def split: if_splits)
  show "severity_level ck = (if current_value ck > limit_value ck then ''critical'' else ''info'')"
    using m by (simp add: f x_def l_def not_le)
  show "(current_value ck > limit_value ck) = (margin_percent ck < 0)" if "0 < limit_value ck"
    using that margin_negative_iff [of l x] by (simp add: f)
qed

lemma harmonic_check_severity:
  assumes "harmonic_check cfg c = Inr ck"
  shows "severity_level ck = (if current_value ck > limit_value ck then ''warning'' else ''info'')"
    and "0 < limit_value ck \<Longrightarrow> (current_value ck > limit_value ck) = (margin_percent ck < 0)"
proof -
  from assms obtain r where r: "analyze_harmonic_distortion (loads c) = Inr r"
    by (auto simp: harmonic_check_def bindE_def split: sum.splits)
  define x where "x = thd_current_percent r"
  define l where "l = config_get (thd_current_limit_percent cfg) 20"
  from assms r have f: "current_value ck = x" "limit_value ck = l"
      "margin_percent ck = (l - x) / l * 100"
      "severity_level ck = (if x > l then ''warning'' else ''info'')"
    unfolding x_def l_def
    by (auto simp: harmonic_check_def bindE_def pydiv_def Let_def split: if_splits)
  show "severity_level ck = (if current_value ck > limit_value ck then ''warning'' else ''info'')"
    by (simp add: f)
  show "(current_value ck > limit_value ck) = (margin_percent ck < 0)" if "0 < limit_value ck"
    using that margin_negative_iff [of l x] by (simp add: f)
qed

lemma parent_check_severity:
  assumes "parent_check st c = Inr cs" "ck \<in> set cs"
  shows "constraint_name ck = ''Parent Circuit Loading''"
    and "severity_level ck =
           (if current_value ck > 100 then ''critical''
            else if current_value ck > limit_value ck then ''warning'' else ''info'')"
    and "margin_percent ck = limit_value ck - current_value ck"
proof -
  from assms obtain p pc la where
      l: "parent_loading_check (config st) pc la = Inr cs"
    by (auto simp: parent_check_def Let_def split: option.splits if_splits)
  then obtain pt where pt: "analyze_thermal_performance (config st) pc = Inr pt"
    by (auto simp: parent_loading_check_def bindE_def split: sum.splits)
  from parent_loading_check_result [OF l pt] assms(2)
  show "constraint_name ck = ''Parent Circuit Loading''"
    and "severity_level ck =
           (if current_value ck > 100 then ''critical''
            else if current_value ck > limit_value ck then ''warning'' else ''info'')"
    and "margin_percent ck = limit_value ck - current_value ck"
    by auto
qed


section \<open>Severity policy\<close>

text \<open>
  C2 as stated fails: the four checks do not share one policy. For the short run the
  voltage-drop margin is 3.5 percent, which is non-negative and below the minimum margin
  of 20, and the check has severity info where the uniform policy gives warning.
\<close>

theorem voltage_drop_check_skips_warning:
  "snd (validate_system_constraints init_state short_run_circuit) = Inr short_run_checks
   \<and> constraint_name (short_run_checks ! 1) = ''Voltage Drop''
   \<and> margin_percent (short_run_checks ! 1) = 7 / 2
   \<and> config_get (thermal_margin_min_percent (config init_state)) 20 = 20
   \<and> severity_level (short_run_checks ! 1) = ''info''
   \<and> uniform_severity (margin_percent (short_run_checks ! 1))
        (config_get (thermal_margin_min_percent (config init_state)) 20) = ''warning''"
proof -
  have g: "config init_state = init_config"
    by (simp add: init_state_def)
  have "constraint_name (short_run_checks ! 1) = ''Voltage Drop''
   \<and> margin_percent (short_run_checks ! 1) = 7 / 2
   \<and> config_get (thermal_margin_min_percent (config init_state)) 20 = 20
   \<and> severity_level (short_run_checks ! 1) = ''info''
   \<and> uniform_severity (margin_percent (short_run_checks ! 1))
        (config_get (thermal_margin_min_percent (config init_state)) 20) = ''warning''"
    by (simp add: short_run_checks_def uniform_severity_def g init_limits)
  with short_run_validate show ?thesis by (rule conjI)
qed

text \<open>
  C2 (amended): every check returned by validation carries one of the four names, and its
  severity follows the policy of its own kind. Conductor Ampacity: critical below a zero
  margin, warning below the configured minimum margin, info otherwise. Voltage Drop (limit
  positive): critical below a zero margin, info otherwise. Parent Circuit Loading (margin =
  limit - loading): critical when the loading exceeds 100, warning when the margin is
  negative, info otherwise. Current THD (limit positive): warning below a zero margin, info
  otherwise.
\<close>

theorem severity_policy_per_check:
  assumes v: "snd (validate_system_constraints st c) = Inr checks" and m: "ck \<in> set checks"
  shows "constraint_name ck \<in> set [''Conductor Ampacity'', ''Voltage Drop'',
                                  ''Parent Circuit Loading'', ''Current THD'']
    \<and> (constraint_name ck = ''Conductor Ampacity'' \<longrightarrow>
         severity_level ck =
           uniform_severity (margin_percent ck)
             (config_get (thermal_margin_min_percent (config st)) 20))
    \<and> (constraint_name ck = ''Voltage Drop'' \<and> 0 < limit_value ck \<longrightarrow>
         severity_level ck = (if margin_percent ck < 0 then ''critical'' else ''info''))
    \<and> (constraint_name ck = ''Parent Circuit Loading'' \<longrightarrow>
         margin_percent ck = limit_value ck - current_value ck \<and>
         severity_level ck =
           (if current_value ck > 100 then ''critical''
            else if margin_percent ck < 0 then ''warning'' else ''info''))
    \<and> (constraint_name ck = ''Current THD'' \<and> 0 < limit_value ck \<longrightarrow>
         severity_level ck = (if margin_percent ck < 0 then ''warning'' else ''info''))"
proof -
  from validate_result_parts [OF v] obtain c1 c2 c3 c4 where
      t: "thermal_check (config st) c = Inr c1" and
      vo: "voltage_check (config st) c = Inr c2" and
      pa: "parent_check (add_circuit st c) c = Inr c3" and
      h: "harmonic_check (config st) c = Inr c4" and
      cs: "checks = [c1, c2] @ c3 @ [c4]"
    by blast
  from m cs consider "ck = c1" | "ck = c2" | "ck \<in> set c3" | "ck = c4" by auto
  then show ?thesis
  proof cases
    case 1
    then show ?thesis
      using thermal_check_name [OF t] thermal_check_severity [OF t] by simp
  next
    case 2
    then show ?thesis
      using voltage_check_name [OF vo] voltage_check_severity [OF vo] by simp
  next
    case 3
    then show ?thesis
      using parent_check_severity [OF pa 3] by simp
  next
    case 4
    then show ?thesis
      using harmonic_check_name [OF h] harmonic_check_severity [OF h] by simp
  qed
qed

theorem severity_policy_per_check_witness:
  "snd (validate_system_constraints panel_only_state overload_child) = Inr overload_checks
   \<and> overload_checks ! 0 \<in> set overload_checks
   \<and> constraint_name (overload_checks ! 0) = ''Conductor Ampacity''
   \<and> severity_level (overload_checks ! 0) =
        uniform_severity (margin_percent (overload_checks ! 0))
          (config_get (thermal_margin_min_percent (config panel_only_state)) 20)
   \<and> overload_checks ! 1 \<in> set overload_checks
   \<and> constraint_name (overload_checks ! 1) = ''Voltage Drop''
   \<and> 0 < limit_value (overload_checks ! 1)
   \<and> severity_level (overload_checks ! 1) =
        (if margin_percent (overload_checks ! 1) < 0 then ''critical'' else ''info'')
   \<and> overload_checks ! 2 \<in> set overload_checks
   \<and> constraint_name (overload_checks ! 2) = ''Parent Circuit Loading''
   \<and> severity_level (overload_checks ! 2) =
        (if current_value (overload_checks ! 2) > 100 then ''critical''
         else if margin_percent (overload_checks ! 2) < 0 then ''warning'' else ''info'')
   \<and> overload_checks ! 3 \<in> set overload_checks
   \<and> constraint_name (overload_checks ! 3) = ''Current THD''
   \<and> 0 < limit_value (overload_checks ! 3)
   \<and> severity_level (overload_checks ! 3) =
        (if margin_percent (overload_checks ! 3) < 0 then ''warning'' else ''info'')"
proof -
  note v = overload_validate
  have m: "overload_checks ! 0 \<in> set overload_checks" "overload_checks ! 1 \<in> set overload_checks"
      "overload_checks ! 2 \<in> set overload_checks" "overload_checks ! 3 \<in> set overload_checks"
    by (simp_all add: overload_checks_def)
  have n: "constraint_name (overload_checks ! 0) = ''Conductor Ampacity''"
      "constraint_name (overload_checks ! 1) = ''Voltage Drop''"
      "constraint_name (overload_checks ! 2) = ''Parent Circuit Loading''"
      "constraint_name (overload_checks ! 3) = ''Current THD''"
    by (simp_all add: overload_checks_def thd_check_no_harmonics_def)
  have l: "0 < limit_value (overload_checks ! 1)" "0 < limit_value (overload_checks ! 3)"
    by (simp_all add: overload_checks_def thd_check_no_harmonics_def)
  from severity_policy_per_check [OF v m(1)] n(1) have a0: "severity_level (overload_checks ! 0) =
        uniform_severity (margin_percent (overload_checks ! 0))
          (config_get (thermal_margin_min_percent (config panel_only_state)) 20)"
    by (elim conjE) (erule (1) mp)
  from severity_policy_per_check [OF v m(2)] n(2) l(1) have a1: "severity_level (overload_checks ! 1) =
        (if margin_percent (overload_checks ! 1) < 0 then ''critical'' else ''info'')"
    by (elim conjE) (erule mp, erule (1) conjI)
  from severity_policy_per_check [OF v m(3)] n(3) have a2: "severity_level (overload_checks ! 2) =
        (if current_value (overload_checks ! 2) > 100 then ''critical''
         else if margin_percent (overload_checks ! 2) < 0 then ''warning'' else ''info'')"
    by (elim conjE) (drule (1) mp, erule conjunct2)
  from severity_policy_per_check [OF v m(4)] n(4) l(2) have a3: "severity_level (overload_checks ! 3) =
        (if margin_percent (overload_checks ! 3) < 0 then ''warning'' else ''info'')"
    by (elim conjE) (erule mp, erule (1) conjI)
  show ?thesis
    by (intro conjI) (rule v m n l a0 a1 a2 a3)+
qed


section \<open>Wire upgrade recommendation\<close>

lemma index_of_Some:
  "index_of xs a = Some i \<Longrightarrow> i < length xs \<and> xs ! i = a"
proof (induction xs arbitrary: i)
  case Nil
  then show ?case by simp
next
  case (Cons x xs)
  then show ?case by (auto split: if_splits)
qed

lemma index_of_mem: "a \<in> set xs \<Longrightarrow> \<exists>i. index_of xs a = Some i"
  by (induction xs) auto

lemma test_vd_percent_scale:
  assumes "voltage_rating c \<noteq> 0"
  shows "test_vd_percent c (design_current (calculate_load_current (loads c) True None)) w
           = Inr (resistance_ohm_per_kft w * drop_scale c)"
  using assms by (simp add: test_vd_percent_def drop_scale_def bindE_def pydiv_def Let_def)

lemma upgrade_meets_limit_scale:
  assumes "voltage_rating c \<noteq> 0" "get_wire_properties s = Some w"
  shows "upgrade_meets_limit cfg c s
           = (resistance_ohm_per_kft w * drop_scale c \<le> voltage_drop_limit_percent cfg)"
  by (simp add: upgrade_meets_limit_def assms(2) test_vd_percent_scale [OF assms(1)])

lemma upgrade_search_find:
  assumes "voltage_rating c \<noteq> 0"
  shows "upgrade_search cfg c (design_current (calculate_load_current (loads c) True None)) sizes
           = Inr (case find (upgrade_meets_limit cfg c) sizes of
                    None \<Rightarrow> consult_engineer | Some s \<Rightarrow> s)"
proof (induction sizes)
  case Nil
  show ?case by simp
next
  case (Cons s sizes)
  show ?case
  proof (cases "get_wire_properties s")
    case None
    then show ?thesis
      using Cons.IH by (simp add: upgrade_meets_limit_def)
  next
    case (Some w)
    then show ?thesis
      using Cons.IH
      by (simp add: upgrade_meets_limit_scale [OF assms Some] test_vd_percent_scale [OF assms]
          bindE_def)
  qed
qed

lemma analyze_voltage_drop_over_limit:
  assumes r: "analyze_voltage_drop cfg c = Inr r"
      and over: "voltage_drop_percent r > voltage_drop_limit_percent cfg"
  shows "voltage_rating c \<noteq> 0"
    and "\<exists>w. get_wire_properties (wire_awg c) = Some w
             \<and> voltage_drop_percent r = resistance_ohm_per_kft w * drop_scale c"
    and "\<exists>s. recommend_wire_upgrade cfg c
                (design_current (calculate_load_current (loads c) True None))
                (voltage_drop_percent r) = Inr s
             \<and> recommended_wire_upgrade r = Some s"
proof -
  from r obtain w where w: "get_wire_properties (wire_awg c) = Some w"
    by (auto simp: analyze_voltage_drop_def split: option.splits)
  from r w show v: "voltage_rating c \<noteq> 0"
    by (auto simp: analyze_voltage_drop_def bindE_def pydiv_def Let_def split: if_splits)
  define dc where "dc = design_current (calculate_load_current (loads c) True None)"
  define x where "x = dc * (resistance_ohm_per_kft w / 1000 * wire_length_ft c * 2)
                        / voltage_rating c * 100"
  have x: "x = resistance_ohm_per_kft w * drop_scale c"
    by (simp add: x_def drop_scale_def dc_def)
  have a: "analyze_voltage_drop cfg c =
      bindE (if \<not> x \<le> voltage_drop_limit_percent cfg
             then bindE (recommend_wire_upgrade cfg c dc x) (\<lambda>s. Inr (Some s))
             else Inr None)
        (\<lambda>u. Inr \<lparr>voltage_drop_volts =
                     dc * (resistance_ohm_per_kft w / 1000 * wire_length_ft c * 2),
                   voltage_drop_percent = x,
                   voltage_at_load = voltage_rating c
                     - dc * (resistance_ohm_per_kft w / 1000 * wire_length_ft c * 2),
                   meets_code_requirements = (x \<le> voltage_drop_limit_percent cfg),
                   recommended_wire_upgrade = u\<rparr>)"
    unfolding analyze_voltage_drop_def w option.case Let_def pydiv_def bindE_def
      dc_def [symmetric]
    by (simp only: v if_False sum.case x_def [symmetric])
  from r have px: "voltage_drop_percent r = x"
    unfolding a by (auto simp: bindE_def split: sum.splits if_splits)
  with w x show "\<exists>w. get_wire_properties (wire_awg c) = Some w
             \<and> voltage_drop_percent r = resistance_ohm_per_kft w * drop_scale c"
    by simp
  from over px have nx: "\<not> x \<le> voltage_drop_limit_percent cfg" by simp
  from r show "\<exists>s. recommend_wire_upgrade cfg c
                (design_current (calculate_load_current (loads c) True None))
                (voltage_drop_percent r) = Inr s
             \<and> recommended_wire_upgrade r = Some s"
    unfolding a px dc_def [symmetric] using nx
    by (auto simp: bindE_def split: sum.splits)
qed

lemma consult_engineer_not_a_size: "consult_engineer \<notin> set wire_sizes"
  by (simp add: consult_engineer_def wire_sizes_def)

lemma ladder_resistance:
  assumes "s \<in> set wire_sizes"
  shows "\<exists>w. get_wire_properties s = Some w \<and> 0.0608 \<le> resistance_ohm_per_kft w"
  using assms
  by (auto simp: wire_sizes_def get_wire_properties_def WIRE_DATA_def mk_wire_def)

lemma wire_4_0: "get_wire_properties ''4/0'' = Some (mk_wire ''4/0'' 460.0 211600 0.0608 195 230 260)"
  by (simp add: get_wire_properties_def WIRE_DATA_def)

lemma find_ladder_Some:
  assumes f: "find P (drop (Suc i) xs) = Some s" and i: "i < length xs"
  shows "\<exists>j. i < j \<and> j < length xs \<and> s = xs ! j \<and> P (xs ! j)
             \<and> (\<forall>k. i < k \<and> k < j \<longrightarrow> \<not> P (xs ! k))"
proof -
  from f obtain m where m: "m < length (drop (Suc i) xs)" "P (drop (Suc i) xs ! m)"
      "s = drop (Suc i) xs ! m" "\<forall>k<m. \<not> P (drop (Suc i) xs ! k)"
    unfolding find_Some_iff by blast
  have lt: "Suc i + m < length xs" using m(1) by simp
  have nth: "\<And>k. k \<le> m \<Longrightarrow> drop (Suc i) xs ! k = xs ! (Suc i + k)"
    using lt by simp
  have "\<forall>k. i < k \<and> k < Suc i + m \<longrightarrow> \<not> P (xs ! k)"
  proof (intro allI impI)
    fix k assume k: "i < k \<and> k < Suc i + m"
    then have km: "k - Suc i < m" and ki: "Suc i + (k - Suc i) = k" by arith+
    with m(4) have "\<not> P (drop (Suc i) xs ! (k - Suc i))" by blast
    moreover have "drop (Suc i) xs ! (k - Suc i) = xs ! k"
      using nth [of "k - Suc i"] km by (simp only: ki less_imp_le)
    ultimately show "\<not> P (xs ! k)" by simp
  qed
  with m lt nth [of m] show ?thesis
    by (intro exI [of _ "Suc i + m"]) simp
qed

lemma find_ladder_None:
  assumes f: "find P (drop (Suc i) xs) = None"
  shows "\<forall>k. i < k \<and> k < length xs \<longrightarrow> \<not> P (xs ! k)"
proof (intro allI impI)
  fix k assume k: "i < k \<and> k < length xs"
  then have "xs ! k \<in> set (drop (Suc i) xs)"
    unfolding in_set_conv_nth
    by (intro exI [of _ "k - Suc i"]) auto
  with f show "\<not> P (xs ! k)"
    unfolding find_None_iff by blast
qed

lemma ladder_length: "length wire_sizes = 12"
  by (simp add: wire_sizes_def)

lemma ladder_last: "wire_sizes ! 11 = ''4/0''"
  by (simp add: wire_sizes_def)

lemma wire_250: "get_wire_properties ''250'' = Some (mk_wire ''250'' 500.0 250000 0.0515 215 255 290)"
  by (simp add: get_wire_properties_def WIRE_DATA_def)

lemma wire_500: "get_wire_properties ''500'' = Some (mk_wire ''500'' 707.0 500000 0.0258 320 380 430)"
  by (simp add: get_wire_properties_def WIRE_DATA_def)

lemma feeder_4_0_scale: "voltage_rating feeder_4_0 \<noteq> 0" "drop_scale feeder_4_0 = 50"
  by (simp_all add: drop_scale_def feeder_4_0_def example_circuit_def load_resistive)

lemma long_run_scale: "voltage_rating long_run_circuit \<noteq> 0" "drop_scale long_run_circuit = 5 / 3"
  by (simp_all add: drop_scale_def long_run_circuit_def example_circuit_def load_resistive)

lemma ladder_after_4_0: "index_of wire_sizes ''4/0'' = Some 11"
  by (simp add: wire_sizes_def)

lemma feeder_4_0_analysis:
  "analyze_voltage_drop init_config feeder_4_0 = Inr feeder_4_0_voltage"
  by (simp add: analyze_voltage_drop_def recommend_wire_upgrade_def feeder_4_0_voltage_def
      feeder_4_0_def example_circuit_def wire_4_0 mk_wire_def load_resistive init_limits
      ladder_after_4_0 ladder_length bindE_def pydiv_def Let_def)

lemma long_run_analysis:
  "analyze_voltage_drop init_config long_run_circuit = Inr long_run_voltage"
  by (simp add: analyze_voltage_drop_def recommend_wire_upgrade_def long_run_voltage_def
      long_run_circuit_def example_circuit_def wire12 wire10 mk_wire_def load_resistive init_limits
      wire_sizes_def test_vd_percent_def bindE_def pydiv_def Let_def)

lemma kcmil_size_raises:
  "analyze_voltage_drop init_config feeder_250 = Inl (ValueError_NotInList ''250'')"
  by (simp add: analyze_voltage_drop_def recommend_wire_upgrade_def
      feeder_250_def example_circuit_def wire_250 mk_wire_def load_resistive init_limits
      wire_sizes_def bindE_def pydiv_def Let_def)

text \<open>
  C4 as stated fails for sizes of the wire table beyond the ladder, which ends at 4/0: for a
  4/0 circuit of 3000 ft whose drop is over the limit the recommendation is the "consult
  engineer" value, although the table's next size 250 and its largest size 500 both bring
  the recomputed drop within the limit.
\<close>

theorem upgrade_ladder_ends_at_4_0:
  "analyze_voltage_drop init_config feeder_4_0 = Inr feeder_4_0_voltage
   \<and> voltage_drop_percent feeder_4_0_voltage > voltage_drop_limit_percent init_config
   \<and> get_wire_properties (wire_awg feeder_4_0) \<noteq> None
   \<and> recommended_wire_upgrade feeder_4_0_voltage = Some consult_engineer
   \<and> get_wire_properties ''250'' \<noteq> None
   \<and> upgrade_meets_limit init_config feeder_4_0 ''250''
   \<and> get_wire_properties ''500'' \<noteq> None
   \<and> upgrade_meets_limit init_config feeder_4_0 ''500''"
proof -
  have "voltage_drop_percent feeder_4_0_voltage > voltage_drop_limit_percent init_config"
      "recommended_wire_upgrade feeder_4_0_voltage = Some consult_engineer"
    by (simp_all add: feeder_4_0_voltage_def init_limits)
  moreover have "get_wire_properties (wire_awg feeder_4_0) \<noteq> None"
    by (simp add: feeder_4_0_def wire_4_0)
  moreover have "upgrade_meets_limit init_config feeder_4_0 ''250''"
    by (simp add: upgrade_meets_limit_scale [OF feeder_4_0_scale(1) wire_250] feeder_4_0_scale(2)
        mk_wire_def init_limits)
  moreover have "upgrade_meets_limit init_config feeder_4_0 ''500''"
    by (simp add: upgrade_meets_limit_scale [OF feeder_4_0_scale(1) wire_500] feeder_4_0_scale(2)
        mk_wire_def init_limits)
  ultimately show ?thesis
    by (simp add: feeder_4_0_analysis wire_250 wire_500)
qed

text \<open>
  C4 (amended): when the voltage-drop analysis of a circuit whose size is on the ladder
  (14 up to 4/0) finds the drop over the limit, the recommendation is the first size after
  the circuit's own, in ladder order, whose recomputed drop percent meets the limit, and the
  "consult engineer" value when no later size of the ladder does; with a non-negative limit
  it is that value exactly when size 4/0, the last of the ladder, still fails.
\<close>

theorem recommended_upgrade_on_ladder:
  assumes r: "analyze_voltage_drop cfg c = Inr r"
      and over: "voltage_drop_percent r > voltage_drop_limit_percent cfg"
      and lad: "wire_awg c \<in> set wire_sizes"
  shows "\<exists>i < length wire_sizes. wire_sizes ! i = wire_awg c \<and>
          ((\<exists>j. i < j \<and> j < length wire_sizes
                \<and> recommended_wire_upgrade r = Some (wire_sizes ! j)
                \<and> upgrade_meets_limit cfg c (wire_sizes ! j)
                \<and> (\<forall>k. i < k \<and> k < j \<longrightarrow> \<not> upgrade_meets_limit cfg c (wire_sizes ! k)))
           \<or> (recommended_wire_upgrade r = Some consult_engineer
                \<and> (\<forall>k. i < k \<and> k < length wire_sizes \<longrightarrow>
                       \<not> upgrade_meets_limit cfg c (wire_sizes ! k))))
       \<and> (0 \<le> voltage_drop_limit_percent cfg \<longrightarrow>
            (recommended_wire_upgrade r = Some consult_engineer)
              = (\<not> upgrade_meets_limit cfg c ''4/0''))"
proof -
  let ?P = "upgrade_meets_limit cfg c"
  note a = analyze_voltage_drop_over_limit [OF r over]
  from index_of_mem [OF lad] obtain i where i: "index_of wire_sizes (wire_awg c) = Some i"
    by blast
  note ii = index_of_Some [OF i]
  from a(3) obtain s where
      s: "recommend_wire_upgrade cfg c
            (design_current (calculate_load_current (loads c) True None))
            (voltage_drop_percent r) = Inr s"
      and rs: "recommended_wire_upgrade r = Some s"
    by blast
  have sf: "s = (case find ?P (drop (Suc i) wire_sizes) of
                   None \<Rightarrow> consult_engineer | Some t \<Rightarrow> t)"
    using s by (simp add: recommend_wire_upgrade_def i upgrade_search_find [OF a(1)])
  from a(2) obtain w where w: "get_wire_properties (wire_awg c) = Some w"
      and pw: "voltage_drop_percent r = resistance_ohm_per_kft w * drop_scale c"
    by blast
  have own: "\<not> ?P (wire_awg c)"
    using over by (simp add: upgrade_meets_limit_scale [OF a(1) w] pw)
  have first: "(\<exists>j. i < j \<and> j < length wire_sizes
                \<and> recommended_wire_upgrade r = Some (wire_sizes ! j)
                \<and> ?P (wire_sizes ! j)
                \<and> (\<forall>k. i < k \<and> k < j \<longrightarrow> \<not> ?P (wire_sizes ! k)))
           \<or> (recommended_wire_upgrade r = Some consult_engineer
                \<and> (\<forall>k. i < k \<and> k < length wire_sizes \<longrightarrow> \<not> ?P (wire_sizes ! k)))"
  proof (cases "find ?P (drop (Suc i) wire_sizes)")
    case None
    from find_ladder_None [OF None] sf None rs show ?thesis by simp
  next
    case (Some t)
    from find_ladder_Some [OF Some] ii sf Some rs show ?thesis by auto
  qed
  have last: "(recommended_wire_upgrade r = Some consult_engineer) = (\<not> ?P ''4/0'')"
    if lim: "0 \<le> voltage_drop_limit_percent cfg"
  proof
    assume "recommended_wire_upgrade r = Some consult_engineer"
    with rs have se: "s = consult_engineer" by simp
    have none: "find ?P (drop (Suc i) wire_sizes) = None"
    proof (cases "find ?P (drop (Suc i) wire_sizes)")
      case None
      then show ?thesis .
    next
      case (Some t)
      then have "t \<in> set (drop (Suc i) wire_sizes)"
        unfolding find_Some_iff by (auto simp: in_set_conv_nth)
      then have "t \<in> set wire_sizes" by (rule in_set_dropD)
      with sf Some se consult_engineer_not_a_size show ?thesis by simp
    qed
    show "\<not> ?P ''4/0''"
    proof (cases "i < 11")
      case True
      then have "i < 11 \<and> 11 < length wire_sizes" by (simp add: ladder_length)
      with find_ladder_None [OF none] have "\<not> ?P (wire_sizes ! 11)"
        by blast
      then show ?thesis by (simp add: ladder_last)
    next
      case False
      with ii have "i = 11" by (simp add: ladder_length)
      with ii have "wire_awg c = ''4/0''" by (simp add: ladder_last)
      with own show ?thesis by simp
    qed
  next
    assume n: "\<not> ?P ''4/0''"
    have w0: "0 < resistance_ohm_per_kft w"
      using ladder_resistance [OF lad] w by auto
    have "0 < resistance_ohm_per_kft w * drop_scale c"
      using over lim pw by simp
    with w0 have k: "0 < drop_scale c"
      by (simp add: zero_less_mult_iff)
    have l4: "0.0608 * drop_scale c > voltage_drop_limit_percent cfg"
      using n by (simp add: upgrade_meets_limit_scale [OF a(1) wire_4_0] mk_wire_def)
    have all: "\<not> ?P t" if "t \<in> set wire_sizes" for t
    proof -
      from ladder_resistance [OF that] obtain u where
          u: "get_wire_properties t = Some u" "0.0608 \<le> resistance_ohm_per_kft u"
        by blast
      from u(2) k have "0.0608 * drop_scale c \<le> resistance_ohm_per_kft u * drop_scale c"
        by (rule mult_right_mono [OF _ less_imp_le])
      with l4 show ?thesis
        by (simp add: upgrade_meets_limit_scale [OF a(1) u(1)])
    qed
    have "find ?P (drop (Suc i) wire_sizes) = None"
      unfolding find_None_iff using all in_set_dropD by fast
    with sf rs show "recommended_wire_upgrade r = Some consult_engineer" by simp
  qed
  from ii first last show ?thesis by blast
qed

theorem recommended_upgrade_on_ladder_witness:
  "analyze_voltage_drop init_config long_run_circuit = Inr long_run_voltage
   \<and> voltage_drop_percent long_run_voltage > voltage_drop_limit_percent init_config
   \<and> wire_awg long_run_circuit \<in> set wire_sizes
   \<and> 0 \<le> voltage_drop_limit_percent init_config
   \<and> wire_sizes ! 1 = wire_awg long_run_circuit
   \<and> recommended_wire_upgrade long_run_voltage = Some (wire_sizes ! 2)
   \<and> upgrade_meets_limit init_config long_run_circuit (wire_sizes ! 2)
   \<and> recommended_wire_upgrade long_run_voltage \<noteq> Some consult_engineer
   \<and> upgrade_meets_limit init_config long_run_circuit ''4/0''"
proof -
  have o: "voltage_drop_percent long_run_voltage > voltage_drop_limit_percent init_config"
    by (simp add: long_run_voltage_def init_limits)
  have l: "wire_awg long_run_circuit \<in> set wire_sizes"
    by (simp add: long_run_circuit_def example_circuit_def wire_sizes_def)
  have z: "0 \<le> voltage_drop_limit_percent init_config"
    by (simp add: init_limits)
  have e: "wire_sizes ! 1 = wire_awg long_run_circuit"
      "recommended_wire_upgrade long_run_voltage = Some (wire_sizes ! 2)"
      "recommended_wire_upgrade long_run_voltage \<noteq> Some consult_engineer"
    by (simp_all add: long_run_circuit_def example_circuit_def wire_sizes_def long_run_voltage_def
        consult_engineer_def)
  have u: "upgrade_meets_limit init_config long_run_circuit (wire_sizes ! 2)"
    using upgrade_meets_limit_scale [OF long_run_scale(1) wire10, of init_config]
    by (simp add: wire_sizes_def long_run_scale(2) mk_wire_def init_limits)
  from recommended_upgrade_on_ladder [OF long_run_analysis o l] z e(3)
  have "upgrade_meets_limit init_config long_run_circuit ''4/0''"
    by blast
  with o l z e u show ?thesis
    by (simp add: long_run_analysis)
qed


section \<open>Parent circuit loading\<close>

lemma children_design_current_sum:
  "children_design_current st ids = sum_list (map (child_design_current st) ids)"
proof (induction ids)
  case Nil
  show ?case
    by (simp add: children_design_current_def calculate_load_current_def)
next
  case (Cons x xs)
  have "children_design_current st [x] = child_design_current st x"
    by (simp add: children_design_current_def child_design_current_def calculate_load_current_def
        split: option.splits)
  with Cons show ?case
    using children_design_current_Cons [of st x xs] by simp
qed

lemma child_design_current_graft:
  "child_design_current (add_circuit st c) cid =
     (if cid = circuit_id c then design_current (calculate_load_current (loads c) True None)
      else child_design_current st cid)"
  by (simp add: child_design_current_def circuits_add)

lemma children_design_current_fresh:
  assumes "circuit_id c \<notin> set ids"
  shows "sum_list (map (child_design_current (add_circuit st c)) ids)
           = sum_list (map (child_design_current st) ids)"
  using assms by (induction ids) (auto simp add: child_design_current_graft)

lemma grafted_children_design_current:
  assumes p: "parent_circuit_id c = Some p" "p \<noteq> []"
      and fresh: "circuit_id c \<notin> set (case system_hierarchy st p of None \<Rightarrow> [] | Some ch \<Rightarrow> ch)"
  shows "children_design_current (add_circuit st c)
           (case system_hierarchy (add_circuit st c) p of None \<Rightarrow> [] | Some ch \<Rightarrow> ch)
         = aggregated_children_design_current st c p"
  unfolding hierarchy_add [OF p] option.case children_design_current_sum
    aggregated_children_design_current_def
  by (simp add: children_design_current_fresh [OF fresh] child_design_current_graft)

lemma validate_under_panel:
  assumes cfg: "config st = init_config"
      and pc: "circuits st ''PANEL'' = Some panel_circuit"
      and p: "parent_circuit_id c = Some ''PANEL''" "circuit_id c \<noteq> ''PANEL''"
      and l: "loads c = [resistive_load i]" and i: "0 < i"
      and t: "thermal_check init_config c = Inr c1"
      and v: "voltage_check init_config c = Inr c2"
      and d: "children_design_current (add_circuit st c)
                (case system_hierarchy (add_circuit st c) ''PANEL'' of
                   None \<Rightarrow> [] | Some ch \<Rightarrow> ch) = d"
  shows "snd (validate_system_constraints st c) =
     Inr [c1, c2,
          \<lparr>constraint_name = ''Parent Circuit Loading'',
            current_value = d / (91 / 5) * 100, limit_value = 80,
            margin_percent = 80 - d / (91 / 5) * 100,
            passes_check = (d / (91 / 5) * 100 \<le> 80),
            severity_level = (if d / (91 / 5) * 100 > 100 then ''critical''
                              else if d / (91 / 5) * 100 > 80 then ''warning'' else ''info''),
            recommendation = (if d / (91 / 5) * 100 > 80
                              then ''Upgrade parent circuit or redistribute loads''
                              else ''Parent circuit adequate'')\<rparr>,
          thd_check_no_harmonics]"
proof -
  let ?A = "add_circuit st c"
  have g: "config ?A = init_config" by (simp add: config_add cfg)
  have pcA: "circuits ?A ''PANEL'' = Some panel_circuit"
    using pc p(2) by (simp add: circuits_add)
  have ne: "''PANEL'' \<noteq> []" by simp
  have pk: "parent_check ?A c =
     Inr [\<lparr>constraint_name = ''Parent Circuit Loading'',
            current_value = d / (91 / 5) * 100, limit_value = 80,
            margin_percent = 80 - d / (91 / 5) * 100,
            passes_check = (d / (91 / 5) * 100 \<le> 80),
            severity_level = (if d / (91 / 5) * 100 > 100 then ''critical''
                              else if d / (91 / 5) * 100 > 80 then ''warning'' else ''info''),
            recommendation = (if d / (91 / 5) * 100 > 80
                              then ''Upgrade parent circuit or redistribute loads''
                              else ''Parent circuit adequate'')\<rparr>]"
    unfolding parent_check_children [OF p(1) ne pcA] g
    using d
    by (simp add: parent_loading_check_def children_design_current_def panel_thermal
        panel_thermal_result_def init_limits bindE_def pydiv_def Let_def)
  show ?thesis
    unfolding validate_system_constraints_def evaluate_constraints_def Let_def snd_conv
      g t v pk harmonic_check_resistive [OF i l] thd_check_no_harmonics_def bindE_def
    by simp
qed

lemma resistive_design_current:
  "design_current (calculate_load_current [resistive_load i] True None) = i"
  by (simp add: load_resistive)

lemma sibling_state_parts:
  "config sibling_state = init_config"
  "circuits sibling_state ''PANEL'' = Some panel_circuit"
  "system_hierarchy sibling_state ''PANEL'' = Some [''B-0'']"
  "child_design_current sibling_state ''B-0'' = 10"
proof -
  have p: "parent_circuit_id sibling_child = Some ''PANEL''"
      "circuit_id sibling_child \<noteq> ''PANEL''" "circuit_id sibling_child = ''B-0''"
      "loads sibling_child = [resistive_load 10]"
    by (simp_all add: sibling_child_def example_circuit_def)
  show "config sibling_state = init_config"
      "circuits sibling_state ''PANEL'' = Some panel_circuit"
      "system_hierarchy sibling_state ''PANEL'' = Some [''B-0'']"
    using panel_only_graft [OF p(1,2)] by (simp_all add: sibling_state_def p(3))
  show "child_design_current sibling_state ''B-0'' = 10"
    using panel_only_graft(3) [OF p(1,2)]
    by (simp add: child_design_current_def sibling_state_def p(3,4) resistive_design_current)
qed

lemma heavy_state_parts:
  "config heavy_state = init_config"
  "circuits heavy_state ''PANEL'' = Some panel_circuit"
  "system_hierarchy heavy_state ''PANEL'' = Some [''B-2'']"
  "child_design_current heavy_state ''B-2'' = 16"
proof -
  have p: "parent_circuit_id heavy_child = Some ''PANEL''"
      "circuit_id heavy_child \<noteq> ''PANEL''" "circuit_id heavy_child = ''B-2''"
      "loads heavy_child = [resistive_load 16]"
    by (simp_all add: heavy_child_def example_circuit_def)
  show "config heavy_state = init_config"
      "circuits heavy_state ''PANEL'' = Some panel_circuit"
      "system_hierarchy heavy_state ''PANEL'' = Some [''B-2'']"
    using panel_only_graft [OF p(1,2)] by (simp_all add: heavy_state_def p(3))
  show "child_design_current heavy_state ''B-2'' = 16"
    using panel_only_graft(3) [OF p(1,2)]
    by (simp add: child_design_current_def heavy_state_def p(3,4) resistive_design_current)
qed

lemma sibling_overload_validate:
  "snd (validate_system_constraints sibling_state overload_child) = Inr sibling_overload_checks"
proof -
  have p: "parent_circuit_id overload_child = Some ''PANEL''"
      "circuit_id overload_child \<noteq> ''PANEL''" "loads overload_child = [resistive_load 19]"
      "circuit_id overload_child = ''B-1''"
    by (simp_all add: overload_child_def example_circuit_def)
  have d: "children_design_current (add_circuit sibling_state overload_child)
             (case system_hierarchy (add_circuit sibling_state overload_child) ''PANEL'' of
                None \<Rightarrow> [] | Some ch \<Rightarrow> ch) = 29"
    by (simp add: hierarchy_add [OF p(1)] sibling_state_parts children_design_current_sum
        child_design_current_graft p resistive_design_current)
  show ?thesis
    using validate_under_panel [OF sibling_state_parts(1,2) p(1,2,3) _
        overload_thermal_check overload_voltage_check d]
    by (simp add: sibling_overload_checks_def overload_checks_def)
qed

lemma small_thermal_check:
  "thermal_check init_config small_child = Inr (sibling_small_checks ! 0)"
proof -
  have "analyze_thermal_performance init_config small_child =
     Inr \<lparr>conductor_temperature_c = 30 + 45 * (6 / (91 / 4)) ^ 2, ampacity_derated = 91 / 4,
          thermal_margin_percent = (91 / 4 - 6) / (91 / 4) * 100,
          time_to_thermal_limit_minutes = Infinity,
          cooling_required = ((6::real) > 91 / 4 * 0.75)\<rparr>"
    by (rule thermal_branch_12) (simp_all add: small_child_def example_circuit_def)
  then show ?thesis
    by (simp add: thermal_check_def bindE_def init_config_def config_get_def load_resistive
        small_child_def example_circuit_def sibling_small_checks_def)
qed

lemma small_voltage_check:
  "voltage_check init_config small_child = Inr (sibling_small_checks ! 1)"
  using voltage_within_limit_12 [of small_child 6]
  by (simp add: small_child_def example_circuit_def sibling_small_checks_def)

lemma sibling_small_validate:
  "snd (validate_system_constraints sibling_state small_child) = Inr sibling_small_checks"
proof -
  have p: "parent_circuit_id small_child = Some ''PANEL''"
      "circuit_id small_child \<noteq> ''PANEL''" "loads small_child = [resistive_load 6]"
      "circuit_id small_child = ''B-4''"
    by (simp_all add: small_child_def example_circuit_def)
  have d: "children_design_current (add_circuit sibling_state small_child)
             (case system_hierarchy (add_circuit sibling_state small_child) ''PANEL'' of
                None \<Rightarrow> [] | Some ch \<Rightarrow> ch) = 16"
    by (simp add: hierarchy_add [OF p(1)] sibling_state_parts children_design_current_sum
        child_design_current_graft p resistive_design_current)
  show ?thesis
    using validate_under_panel [OF sibling_state_parts(1,2) p(1,2,3) _
        small_thermal_check small_voltage_check d]
    by (simp add: sibling_small_checks_def)
qed

lemma relisted_validate:
  "snd (validate_system_constraints heavy_state heavy_child) = Inr relisted_checks"
proof -
  have p: "parent_circuit_id heavy_child = Some ''PANEL''"
      "circuit_id heavy_child \<noteq> ''PANEL''" "loads heavy_child = [resistive_load 16]"
      "circuit_id heavy_child = ''B-2''"
    by (simp_all add: heavy_child_def example_circuit_def)
  have d: "children_design_current (add_circuit heavy_state heavy_child)
             (case system_hierarchy (add_circuit heavy_state heavy_child) ''PANEL'' of
                None \<Rightarrow> [] | Some ch \<Rightarrow> ch) = 32"
    by (simp add: hierarchy_add [OF p(1)] heavy_state_parts children_design_current_sum
        child_design_current_graft p resistive_design_current)
  show ?thesis
    using validate_under_panel [OF heavy_state_parts(1,2) p(1,2,3) _
        heavy_thermal_check heavy_voltage_check d]
    by (simp add: relisted_checks_def heavy_checks_def)
qed

lemma kcmil_child_raises:
  "snd (validate_system_constraints panel_only_state kcmil_child)
     = Inl (ValueError_NotInList ''250'')"
proof -
  have p: "parent_circuit_id kcmil_child = Some ''PANEL''"
      "circuit_id kcmil_child \<noteq> ''PANEL''"
    by (simp_all add: kcmil_child_def feeder_250_def example_circuit_def)
  have t: "\<exists>c1. thermal_check init_config kcmil_child = Inr c1"
    by (simp add: thermal_check_def analyze_thermal_performance_def kcmil_child_def
        feeder_250_def example_circuit_def wire_250 mk_wire_def temp30 load_resistive
        get_ampacity_def get_conduit_fill_correction_factor_def init_config_def bindE_def
        pydiv_def Let_def)
  have v: "voltage_check init_config kcmil_child = Inl (ValueError_NotInList ''250'')"
    by (simp add: voltage_check_def analyze_voltage_drop_def recommend_wire_upgrade_def
        kcmil_child_def feeder_250_def example_circuit_def wire_250 mk_wire_def load_resistive
        init_limits wire_sizes_def bindE_def pydiv_def Let_def)
  from t obtain c1 where t1: "thermal_check init_config kcmil_child = Inr c1" ..
  show ?thesis
    unfolding validate_system_constraints_def evaluate_constraints_def Let_def snd_conv
      panel_only_graft(4) [OF p] t1 v bindE_def
    by simp
qed


text \<open>
  C5 as stated fails in two ways. A panel of 14 AWG (derated ampacity 18.2 A) has one branch
  of 16 A below it, registered and listed; the loading of the panel is 87.9 percent, between
  the limit of 80 and 100. Validating that branch again lists its identity a second time for
  the evaluation, its load is collected twice, and the check reports 32 A, 175.8 percent and
  severity critical where the claim says warning. And a 20 A branch of 4000 ft in 250 kcmil
  conductors proposed below the panel exceeds the panel's derated ampacity, but validation
  raises in the voltage drop analysis (250 is a size of the wire table that is not on the
  upgrade ladder) before the parent is looked at, so no check is emitted.
\<close>

theorem relisted_child_counted_twice:
  "circuits heavy_state ''PANEL'' = Some panel_circuit
   \<and> parent_circuit_id heavy_child = Some ''PANEL''
   \<and> system_hierarchy heavy_state ''PANEL'' = Some [circuit_id heavy_child]
   \<and> circuits heavy_state (circuit_id heavy_child) = Some heavy_child
   \<and> design_current (calculate_load_current (loads heavy_child) True None) = 16
   \<and> analyze_thermal_performance (config heavy_state) panel_circuit = Inr panel_thermal_result
   \<and> ampacity_derated panel_thermal_result = 91 / 5
   \<and> config_get (parent_loading_limit_percent (config heavy_state)) 80 = 80
   \<and> snd (validate_system_constraints heavy_state heavy_child) = Inr relisted_checks
   \<and> constraint_name (relisted_checks ! 2) = ''Parent Circuit Loading''
   \<and> current_value (relisted_checks ! 2) = 32 / (91 / 5) * 100
   \<and> severity_level (relisted_checks ! 2) = ''critical''
   \<and> circuits panel_only_state ''PANEL'' = Some panel_circuit
   \<and> system_hierarchy panel_only_state ''PANEL'' = None
   \<and> parent_circuit_id kcmil_child = Some ''PANEL''
   \<and> get_wire_properties (wire_awg kcmil_child) \<noteq> None
   \<and> design_current (calculate_load_current (loads kcmil_child) True None)
        > ampacity_derated panel_thermal_result
   \<and> snd (validate_system_constraints panel_only_state kcmil_child)
        = Inl (ValueError_NotInList ''250'')"
proof -
  have p: "parent_circuit_id heavy_child = Some ''PANEL''"
      "circuit_id heavy_child \<noteq> ''PANEL''" "circuit_id heavy_child = ''B-2''"
      "loads heavy_child = [resistive_load 16]"
    by (simp_all add: heavy_child_def example_circuit_def)
  have k: "parent_circuit_id kcmil_child = Some ''PANEL''"
      "wire_awg kcmil_child = ''250''" "loads kcmil_child = [resistive_load 20]"
    by (simp_all add: kcmil_child_def feeder_250_def example_circuit_def)
  have reg: "circuits heavy_state ''B-2'' = Some heavy_child"
    using panel_only_graft(3) [OF p(1,2)] by (simp add: heavy_state_def p(3))
  have po: "circuits panel_only_state ''PANEL'' = Some panel_circuit"
      "system_hierarchy panel_only_state ''PANEL'' = None"
    by (simp_all add: panel_only_state_def add_circuit_def init_state_def panel_circuit_def
        example_circuit_def Let_def)
  show ?thesis
    by (simp add: heavy_state_parts p k reg po resistive_design_current panel_thermal
        panel_thermal_result_def init_limits relisted_validate kcmil_child_raises wire_250
        relisted_checks_def heavy_checks_def)
qed

text \<open>
  C5 (amended): whenever validation returns for a candidate whose parent identity names a
  circuit of the registry other than the candidate itself, and whose own identity is not
  already listed among the parent's children, the list of checks has the "Parent Circuit
  Loading" check in third place. Its value is the sum of the design currents of the circuits
  listed under the parent plus the design current of the candidate, as a percentage of the
  parent's derated ampacity. With a configured loading limit of at most 100, the check fails
  with severity critical when that sum exceeds the derated ampacity, and fails with severity
  warning when the loading is above the limit and at most 100.
\<close>

theorem parent_loading_counts_each_child:
  assumes v: "snd (validate_system_constraints st c) = Inr checks"
      and p: "parent_circuit_id c = Some p" "p \<noteq> []"
      and pc: "circuits st p = Some pc" "circuit_id c \<noteq> p"
      and fresh: "circuit_id c \<notin> set (case system_hierarchy st p of None \<Rightarrow> [] | Some ch \<Rightarrow> ch)"
      and pt: "analyze_thermal_performance (config st) pc = Inr pt"
      and lim: "config_get (parent_loading_limit_percent (config st)) 80 \<le> 100"
  shows "map constraint_name checks =
           [''Conductor Ampacity'', ''Voltage Drop'', ''Parent Circuit Loading'', ''Current THD'']
       \<and> current_value (checks ! 2) =
           aggregated_children_design_current st c p / ampacity_derated pt * 100
       \<and> limit_value (checks ! 2) = config_get (parent_loading_limit_percent (config st)) 80
       \<and> (aggregated_children_design_current st c p > ampacity_derated pt \<longrightarrow>
            \<not> passes_check (checks ! 2) \<and> severity_level (checks ! 2) = ''critical'')
       \<and> (limit_value (checks ! 2) < current_value (checks ! 2)
            \<and> current_value (checks ! 2) \<le> 100 \<longrightarrow>
            \<not> passes_check (checks ! 2) \<and> severity_level (checks ! 2) = ''warning'')"
proof -
  let ?A = "add_circuit st c"
  let ?d = "aggregated_children_design_current st c p"
  from validate_result_parts [OF v] obtain c1 c2 c3 c4 where
      t: "thermal_check (config st) c = Inr c1" and
      vo: "voltage_check (config st) c = Inr c2" and
      pa: "parent_check ?A c = Inr c3" and
      h: "harmonic_check (config st) c = Inr c4" and
      cs: "checks = [c1, c2] @ c3 @ [c4]"
    by blast
  have pcA: "circuits ?A p = Some pc"
    using pc by (simp add: circuits_add)
  have pl: "parent_loading_check (config st) pc
              (calculate_load_current
                 (collect_child_loads ?A (case system_hierarchy ?A p of None \<Rightarrow> [] | Some ch \<Rightarrow> ch))
                 True None) = Inr c3"
    using pa parent_check_children [OF p pcA] by (simp add: config_add)
  have agg: "design_current (calculate_load_current
                 (collect_child_loads ?A (case system_hierarchy ?A p of None \<Rightarrow> [] | Some ch \<Rightarrow> ch))
                 True None) = ?d"
    using grafted_children_design_current [OF p fresh]
    by (simp add: children_design_current_def)
  from parent_loading_check_result [OF pl pt] obtain ck where
      c3: "c3 = [ck]" and
      n: "constraint_name ck = ''Parent Circuit Loading''" and
      cv: "current_value ck = ?d / ampacity_derated pt * 100" and
      lv: "limit_value ck = config_get (parent_loading_limit_percent (config st)) 80" and
      ps: "passes_check ck = (current_value ck \<le> limit_value ck)" and
      sv: "severity_level ck =
             (if current_value ck > 100 then ''critical''
              else if current_value ck > limit_value ck then ''warning'' else ''info'')"
    unfolding agg by blast
  have idx: "checks ! 2 = ck" by (simp add: cs c3)
  have names: "map constraint_name checks =
           [''Conductor Ampacity'', ''Voltage Drop'', ''Parent Circuit Loading'', ''Current THD'']"
    by (simp add: cs c3 n thermal_check_name [OF t] voltage_check_name [OF vo]
        harmonic_check_name [OF h])
  have pos: "0 < ampacity_derated pt" by (rule thermal_derated_pos [OF pt])
  have over: "current_value ck > 100" if "?d > ampacity_derated pt"
    using that pos by (simp add: cv field_simps)
  have crit: "\<not> passes_check ck \<and> severity_level ck = ''critical''" if "?d > ampacity_derated pt"
    using over [OF that] lim by (simp add: ps sv lv)
  have warn: "\<not> passes_check ck \<and> severity_level ck = ''warning''"
    if "limit_value ck < current_value ck \<and> current_value ck \<le> 100"
    using that by (simp add: ps sv)
  show ?thesis
    unfolding idx using names cv lv crit warn by blast
qed


theorem parent_loading_counts_each_child_witness:
  "snd (validate_system_constraints sibling_state overload_child) = Inr sibling_overload_checks
   \<and> parent_circuit_id overload_child = Some ''PANEL''
   \<and> circuits sibling_state ''PANEL'' = Some panel_circuit
   \<and> circuit_id overload_child \<noteq> ''PANEL''
   \<and> system_hierarchy sibling_state ''PANEL'' = Some [''B-0'']
   \<and> circuit_id overload_child \<notin> set [''B-0'']
   \<and> analyze_thermal_performance (config sibling_state) panel_circuit = Inr panel_thermal_result
   \<and> config_get (parent_loading_limit_percent (config sibling_state)) 80 \<le> 100
   \<and> aggregated_children_design_current sibling_state overload_child ''PANEL'' = 29
   \<and> ampacity_derated panel_thermal_result = 91 / 5
   \<and> map constraint_name sibling_overload_checks =
        [''Conductor Ampacity'', ''Voltage Drop'', ''Parent Circuit Loading'', ''Current THD'']
   \<and> current_value (sibling_overload_checks ! 2) = 29 / (91 / 5) * 100
   \<and> \<not> passes_check (sibling_overload_checks ! 2)
   \<and> severity_level (sibling_overload_checks ! 2) = ''critical''
   \<and> snd (validate_system_constraints sibling_state small_child) = Inr sibling_small_checks
   \<and> parent_circuit_id small_child = Some ''PANEL''
   \<and> circuit_id small_child \<noteq> ''PANEL''
   \<and> circuit_id small_child \<notin> set [''B-0'']
   \<and> aggregated_children_design_current sibling_state small_child ''PANEL'' = 16
   \<and> current_value (sibling_small_checks ! 2) = 16 / (91 / 5) * 100
   \<and> limit_value (sibling_small_checks ! 2) < current_value (sibling_small_checks ! 2)
   \<and> current_value (sibling_small_checks ! 2) \<le> 100
   \<and> \<not> passes_check (sibling_small_checks ! 2)
   \<and> severity_level (sibling_small_checks ! 2) = ''warning''"
proof -
  have p1: "parent_circuit_id overload_child = Some ''PANEL''"
      and i1: "circuit_id overload_child \<noteq> ''PANEL''"
      and f1: "circuit_id overload_child \<notin> set [''B-0'']"
      and l1: "loads overload_child = [resistive_load 19]"
    by (simp_all add: overload_child_def example_circuit_def)
  have p2: "parent_circuit_id small_child = Some ''PANEL''"
      and i2: "circuit_id small_child \<noteq> ''PANEL''"
      and f2: "circuit_id small_child \<notin> set [''B-0'']"
      and l2: "loads small_child = [resistive_load 6]"
    by (simp_all add: small_child_def example_circuit_def)
  have ne: "''PANEL'' \<noteq> []" by simp
  note pc = sibling_state_parts(2)
  note h = sibling_state_parts(3)
  have fr1: "circuit_id overload_child
               \<notin> set (case system_hierarchy sibling_state ''PANEL'' of
                          None \<Rightarrow> [] | Some ch \<Rightarrow> ch)"
    using f1 by (simp add: h)
  have fr2: "circuit_id small_child
               \<notin> set (case system_hierarchy sibling_state ''PANEL'' of
                          None \<Rightarrow> [] | Some ch \<Rightarrow> ch)"
    using f2 by (simp add: h)
  have pt: "analyze_thermal_performance (config sibling_state) panel_circuit
              = Inr panel_thermal_result"
    by (simp add: sibling_state_parts(1) panel_thermal)
  have lim: "config_get (parent_loading_limit_percent (config sibling_state)) 80 \<le> 100"
    by (simp add: sibling_state_parts(1) init_limits)
  have d1: "aggregated_children_design_current sibling_state overload_child ''PANEL'' = 29"
    by (simp add: aggregated_children_design_current_def h sibling_state_parts(4) l1
        resistive_design_current)
  have d2: "aggregated_children_design_current sibling_state small_child ''PANEL'' = 16"
    by (simp add: aggregated_children_design_current_def h sibling_state_parts(4) l2
        resistive_design_current)
  have a: "ampacity_derated panel_thermal_result = 91 / 5"
    by (simp add: panel_thermal_result_def)
  have over: "aggregated_children_design_current sibling_state overload_child ''PANEL''
                > ampacity_derated panel_thermal_result"
    by (simp add: d1 a)
  have r2: "limit_value (sibling_small_checks ! 2) < current_value (sibling_small_checks ! 2)"
      "current_value (sibling_small_checks ! 2) \<le> 100"
    by (simp_all add: sibling_small_checks_def)
  note t1 = parent_loading_counts_each_child
              [OF sibling_overload_validate p1 ne pc i1 fr1 pt lim]
  note t2 = parent_loading_counts_each_child
              [OF sibling_small_validate p2 ne pc i2 fr2 pt lim]
  from t1 have n1: "map constraint_name sibling_overload_checks =
        [''Conductor Ampacity'', ''Voltage Drop'', ''Parent Circuit Loading'', ''Current THD'']"
    by (rule conjunct1)
  from t1 have v1: "current_value (sibling_overload_checks ! 2) = 29 / (91 / 5) * 100"
    unfolding d1 a by (elim conjE)
  from t2 have v2: "current_value (sibling_small_checks ! 2) = 16 / (91 / 5) * 100"
    unfolding d2 a by (elim conjE)
  from t1 over have a1: "\<not> passes_check (sibling_overload_checks ! 2)
      \<and> severity_level (sibling_overload_checks ! 2) = ''critical''"
    by (elim conjE) (erule (1) mp)
  from t2 r2 have a2: "\<not> passes_check (sibling_small_checks ! 2)
      \<and> severity_level (sibling_small_checks ! 2) = ''warning''"
    by (elim conjE) (erule mp, erule (1) conjI)
  show ?thesis
    by (intro conjI) (rule sibling_overload_validate sibling_small_validate p1 p2 i1 i2 f1 f2
        pc h pt lim d1 d2 a n1 v1 v2 r2
        conjunct1 [OF a1] conjunct2 [OF a1] conjunct1 [OF a2] conjunct2 [OF a2])+
qed


end
